theory Spec2Isabelle
  imports Main
begin

section \<open>Data model\<close>

text \<open>
  The repository holds several iterations of one Express server. Three of them are
  embedded here:
  \<^item> the extended server (second document of \<^verbatim>\<open>src/unnamed/part_000\<close>): JWT auth,
    express-validator checks, PDF file filter, persisted news and events;
  \<^item> its predecessor (\<^verbatim>\<open>src/unnamed/part_002\<close>): the same auth, paper and comment
    handlers without the validators and without the file filter;
  \<^item> the server without auth (\<^verbatim>\<open>src/unnamed/part_001\<close>, and the second document of
    \<^verbatim>\<open>src/server.js\<close>): papers are listed, published and deleted by anybody.

  A MongoDB collection is a list of documents in insertion order; an ObjectId is a
  natural number taken from a counter, so a fresh document never reuses an id. Times are
  integers: milliseconds since the epoch for \<^verbatim>\<open>Date.now()\<close>, seconds inside a token.
  Optional JSON and multipart fields are \<open>string option\<close> (\<open>None\<close> is \<^verbatim>\<open>undefined\<close>).

  A JavaScript string is held as the bytes of its UTF-8 encoding, one \<open>char\<close> per byte. The
  encoding is the generalized one, in which a surrogate that has no partner (JavaScript
  strings may hold one) is the three bytes \<^verbatim>\<open>ED A0..BF 80..BF\<close>.
\<close>

type_synonym oid = nat

text \<open>
  \<^verbatim>\<open>req.params.id\<close> is a string of the URL. Mongoose casts it to an ObjectId and throws a
  CastError when it is not one; the handlers catch that as a 500.
\<close>

datatype id_param = Oid oid | NotAnOid string

datatype pwhash = Bcrypt string string

record user =
  user_id :: oid
  name :: "string option"
  email :: "string option"
  passwordHash :: "pwhash option"
  institution :: string
  avatar :: string
  isAdmin :: bool
  bio :: "string option"
  createdAt :: int

record comment =
  c_author :: "string option"
  c_avatar :: string
  c_text :: "string option"
  c_time :: int

record paper =
  paper_id :: oid
  title :: "string option"
  desc :: "string option"
  category :: "string option"
  author :: "string option"
  authorAvatar :: "string option"
  pdfUrl :: string
  cloudinary_public_id :: "string option"
  collaboration :: bool
  likes :: nat
  comments :: "comment list"
  date :: int

record news_item =
  news_id :: oid
  n_title :: "string option"
  n_desc :: "string option"
  n_tag :: "string option"
  n_img :: "string option"
  n_date :: int
  n_author :: "string option"
  n_createdAt :: int

record event_item =
  event_id :: oid
  e_title :: "string option"
  e_desc :: "string option"
  e_type :: "string option"
  e_day :: "string option"
  e_month :: "string option"
  e_location :: "string option"
  e_createdAt :: int

text \<open>
  The state of the extended server: the four collections, the public ids of the objects
  held by the media host, and the ObjectId counter.
\<close>

record state =
  users :: "user list"
  papers :: "paper list"
  news :: "news_item list"
  events :: "event_item list"
  media :: "string set"
  next_oid :: oid

definition init :: state where
  "init = \<lparr>users = [], papers = [], news = [], events = [], media = {}, next_oid = 0\<rparr>"

subsection \<open>Environment of one request\<close>

text \<open>
  What the handling of one request reads besides the body, the \<^verbatim>\<open>Authorization\<close> header,
  the attachment and the route parameter:
  \<^item> the clock and the salt bcrypt draws;
  \<^item> what the media host answers: \<^verbatim>\<open>upload_stream\<close> calls back with a result (its
    \<^verbatim>\<open>secure_url\<close> and \<^verbatim>\<open>public_id\<close>) or with an error, \<^verbatim>\<open>uploader.destroy\<close> returns or throws;
  \<^item> the counts of the two express-rate-limit middlewares: how many requests, this one
    included, \<^verbatim>\<open>authLimiter\<close> and \<^verbatim>\<open>uploadLimiter\<close> have seen from the request's address in
    the running one-minute window;
  \<^item> the fields of the request's query string and of its other headers, as name and
    value: express-validator's \<^verbatim>\<open>check(field)\<close> looks there as well as in the body. (It
    also looks in the cookies, which this server never parses, and in the route
    parameters, of which there is only \<^verbatim>\<open>id\<close>.)

  Database calls are modelled as returning, apart from the CastError above and the unique
  index on \<^verbatim>\<open>email\<close>.
\<close>

datatype upload_outcome = Uploaded string string | UploadError string

record env =
  now :: int
  salt :: string
  upload_result :: upload_outcome
  destroy_throws :: bool
  auth_hits :: nat
  upload_hits :: nat
  elsewhere :: "(string \<times> string) list"

text \<open>
  What the server is started with: the signing secret (\<^verbatim>\<open>process.env.JWT_SECRET\<close>, or
  \<^verbatim>\<open>dev_secret\<close>), and the two validators of validator.js that the routes use, taken as
  parameters: \<^verbatim>\<open>isEmail()\<close> and \<^verbatim>\<open>isLength({min})\<close>, on the string a value is validated as.
\<close>

record config =
  JWT_SECRET :: string
  isEmail :: "string \<Rightarrow> bool"
  isLength :: "nat \<Rightarrow> string \<Rightarrow> bool"

section \<open>Tokens and password hashes\<close>

text \<open>
  \<^verbatim>\<open>jwt.sign(payload, secret, {expiresIn: '30d'})\<close> stamps the payload with \<^verbatim>\<open>iat\<close>, the
  clock in whole seconds, and \<^verbatim>\<open>exp = iat + 2592000\<close>, and signs it. The signature is
  symbolic: a token records the secret it was signed with, and \<^verbatim>\<open>jwt.verify\<close> accepts a
  token signed with its own secret whose \<^verbatim>\<open>exp\<close> lies after the clock. A payload field
  that is \<^verbatim>\<open>undefined\<close> is left out of the token and is \<^verbatim>\<open>undefined\<close> after \<^verbatim>\<open>jwt.verify\<close>.
\<close>

record claims =
  tok_id :: oid
  tok_email :: "string option"
  tok_name :: "string option"
  tok_isAdmin :: bool
  iat :: int
  exp_at :: int

datatype token = Signed string claims | Unparsable string

definition thirty_days :: int where
  "thirty_days = 30 * 24 * 60 * 60"

definition jwt_sign ::
  "oid \<times> string option \<times> string option \<times> bool \<Rightarrow> string \<Rightarrow> int \<Rightarrow> int \<Rightarrow> token" where
  "jwt_sign payload secret expiresIn clock =
     (case payload of (i, e, n, a) \<Rightarrow>
        Signed secret \<lparr>tok_id = i, tok_email = e, tok_name = n, tok_isAdmin = a,
                       iat = clock div 1000, exp_at = clock div 1000 + expiresIn\<rparr>)"

definition jwt_verify :: "token \<Rightarrow> string \<Rightarrow> int \<Rightarrow> claims option" where
  "jwt_verify tok secret clock =
     (case tok of
        Unparsable _ \<Rightarrow> None
      | Signed k c \<Rightarrow> if k = secret \<and> clock div 1000 < exp_at c then Some c else None)"

definition generateToken :: "config \<Rightarrow> int \<Rightarrow> user \<Rightarrow> token" where
  "generateToken cfg clock u =
     jwt_sign (user_id u, email u, name u, isAdmin u) (JWT_SECRET cfg) thirty_days clock"


definition expiry :: "token \<Rightarrow> int option" where
  "expiry tok = (case tok of Signed _ c \<Rightarrow> Some (exp_at c) | Unparsable _ \<Rightarrow> None)"

definition issued_at :: "token \<Rightarrow> int option" where
  "issued_at tok = (case tok of Signed _ c \<Rightarrow> Some (iat c) | Unparsable _ \<Rightarrow> None)"

text \<open>
  bcrypt is symbolic too: a hash records its salt and the 72 bytes of the password that
  bcrypt reads; \<^verbatim>\<open>bcrypt.compare\<close> hashes the candidate with the same salt and compares.
\<close>

definition bcrypt_hash :: "string \<Rightarrow> string \<Rightarrow> pwhash" where
  "bcrypt_hash password s = Bcrypt s (take 72 password)"

definition bcrypt_compare :: "string \<Rightarrow> pwhash option \<Rightarrow> bool" where
  "bcrypt_compare password h =
     (case h of None \<Rightarrow> False | Some (Bcrypt s d) \<Rightarrow> take 72 password = d)"

section \<open>Requests and responses\<close>

datatype header = Absent | NonBearer string | Bearer token

record user_view =
  v_name :: "string option"
  v_email :: "string option"
  v_institution :: string
  v_avatar :: string
  v_isAdmin :: bool

datatype response =
    HealthOk
  | AuthOk user_view token
  | PaperList "paper list"
  | PaperJson paper
  | OkTrue
  | CommentsOk "comment list"
  | AvatarOk string
  | NewsList "news_item list"
  | NewsJson news_item
  | EventList "event_item list"
  | EventJson event_item
  | Err nat string

definition status :: "response \<Rightarrow> nat" where
  "status r = (case r of Err code _ \<Rightarrow> code | _ \<Rightarrow> 200)"

record register_body =
  r_name :: "string option"
  r_email :: "string option"
  r_password :: "string option"
  r_institution :: "string option"

record login_body =
  l_email :: "string option"
  l_password :: "string option"

text \<open>\<^verbatim>\<open>value || ''\<close>: a missing value read as the empty string.\<close>

definition toString :: "string option \<Rightarrow> string" where
  "toString v = (case v of None \<Rightarrow> [] | Some s \<Rightarrow> s)"

subsection \<open>express-validator checks\<close>

text \<open>
  \<^verbatim>\<open>check(field)\<close> collects the field from the body, the cookies, the headers, the route
  parameters and the query string. Every place that holds a value must pass the
  validator; when no place holds one, the missing value is validated as the empty
  string. \<open>located\<close> lists the values found, the body's first.
\<close>

definition located :: "env \<Rightarrow> string \<Rightarrow> string option \<Rightarrow> string list" where
  "located e field body_value =
     (case body_value of None \<Rightarrow> [] | Some v \<Rightarrow> [v])
     @ map snd (filter (\<lambda>x. fst x = field) (elsewhere e))"

definition check :: "env \<Rightarrow> string \<Rightarrow> string option \<Rightarrow> (string \<Rightarrow> bool) \<Rightarrow> bool" where
  "check e field body_value validator =
     (case located e field body_value of
        [] \<Rightarrow> validator []
      | v # vs \<Rightarrow> list_all validator (v # vs))"

text \<open>\<^verbatim>\<open>check(field).exists()\<close>: some place holds a value.\<close>

definition check_exists :: "env \<Rightarrow> string \<Rightarrow> string option \<Rightarrow> bool" where
  "check_exists e field body_value = (located e field body_value \<noteq> [])"

subsection \<open>express-rate-limit\<close>

text \<open>
  \<^verbatim>\<open>rateLimit({windowMs: 60 * 1000, max, message})\<close>: a request that brings the count of
  its address above \<open>max\<close> is answered 429 with the message.
\<close>

definition rateLimit :: "nat \<Rightarrow> string \<Rightarrow> nat \<Rightarrow> response option" where
  "rateLimit max_hits message hits = (if max_hits < hits then Some (Err 429 message) else None)"

definition authLimiter :: "env \<Rightarrow> response option" where
  "authLimiter e = rateLimit 10 ''Too many auth requests, try again later'' (auth_hits e)"

definition uploadLimiter :: "env \<Rightarrow> response option" where
  "uploadLimiter e = rateLimit 6 ''Too many uploads, try later'' (upload_hits e)"

subsection \<open>authMiddleware\<close>

definition authMiddleware :: "config \<Rightarrow> env \<Rightarrow> header \<Rightarrow> response + claims" where
  "authMiddleware cfg e h =
     (case h of
        Absent \<Rightarrow> Inl (Err 401 ''Unauthorized'')
      | NonBearer _ \<Rightarrow> Inl (Err 401 ''Unauthorized'')
      | Bearer tok \<Rightarrow>
          (case jwt_verify tok (JWT_SECRET cfg) (now e) of
             None \<Rightarrow> Inl (Err 401 ''Invalid token'')
           | Some payload \<Rightarrow> Inr payload))"

section \<open>Auth routes of the extended server\<close>

definition hexDigit :: "nat \<Rightarrow> char" where
  "hexDigit n = ''0123456789ABCDEF'' ! (n mod 16)"

definition unreserved :: "char \<Rightarrow> bool" where
  "unreserved c =
     (c \<in> set ''ABCDEFGHIJKLMNOPQRSTUVWXYZabcdefghijklmnopqrstuvwxyz0123456789-_.!~*()''
      \<or> c = CHR 0x27)"

text \<open>A surrogate without partner: the byte \<^verbatim>\<open>ED\<close> followed by a byte of \<^verbatim>\<open>A0..BF\<close>.\<close>

fun lone_surrogate :: "string \<Rightarrow> bool" where
  "lone_surrogate (a # b # cs) =
     ((a = CHR 0xED \<and> (0xA0 :: nat) \<le> of_char b \<and> of_char b \<le> (0xBF :: nat))
      \<or> lone_surrogate (b # cs))"
| "lone_surrogate [a] = False"
| "lone_surrogate [] = False"

text \<open>
  \<^verbatim>\<open>encodeURIComponent\<close> throws a URIError on a lone surrogate (\<open>None\<close>); else it keeps the
  unreserved characters and writes every other byte of the UTF-8 encoding as \<^verbatim>\<open>%XX\<close>.
\<close>

definition encodeURIComponent :: "string \<Rightarrow> string option" where
  "encodeURIComponent s =
     (if lone_surrogate s then None
      else Some (concat (map (\<lambda>c. if unreserved c then [c]
                                   else [CHR ''%'', hexDigit (of_char c div 16),
                                         hexDigit (of_char c mod 16)]) s)))"

text \<open>The avatar URL of a new user; a missing name is written \<^verbatim>\<open>undefined\<close>.\<close>

definition default_avatar :: "string option \<Rightarrow> string option" where
  "default_avatar n =
     map_option (\<lambda>x. ''https://ui-avatars.com/api/?name='' @ x @ ''&background=76935C&color=fff'')
       (encodeURIComponent (case n of None \<Rightarrow> ''undefined'' | Some s \<Rightarrow> s))"

text \<open>
  \<^verbatim>\<open>User.findOne({ email })\<close>. With \<^verbatim>\<open>email\<close> undefined the filter is empty (Mongoose
  documents \<^verbatim>\<open>findOne({ _id: undefined })\<close> as \<^verbatim>\<open>findOne({})\<close>) and the first document is
  found.
\<close>

definition findOne_email :: "user list \<Rightarrow> string option \<Rightarrow> user option" where
  "findOne_email us e =
     (case e of
        None \<Rightarrow> (case us of [] \<Rightarrow> None | u # _ \<Rightarrow> Some u)
      | Some x \<Rightarrow> find (\<lambda>u. email u = Some x) us)"

text \<open>
  \<^verbatim>\<open>user.save()\<close> of a new document: the unique index on \<^verbatim>\<open>email\<close> refuses a second
  document with a stored email (\<open>None\<close> is the duplicate-key error). The index is
  sparse: documents without email are not in it.
\<close>

definition insert_user :: "user \<Rightarrow> user list \<Rightarrow> user list option" where
  "insert_user u us =
     (if email u \<noteq> None \<and> email u \<in> set (map email us) then None else Some (us @ [u]))"

definition view :: "user \<Rightarrow> user_view" where
  "view u = \<lparr>v_name = name u, v_email = email u, v_institution = institution u,
             v_avatar = avatar u, v_isAdmin = isAdmin u\<rparr>"

text \<open>The three checks of \<^verbatim>\<open>POST /api/auth/register\<close> and the two of \<^verbatim>\<open>POST /api/auth/login\<close>.\<close>

definition valid_register :: "config \<Rightarrow> env \<Rightarrow> register_body \<Rightarrow> bool" where
  "valid_register cfg e b =
     (check e ''name'' (r_name b) (isLength cfg 2)
      \<and> check e ''email'' (r_email b) (isEmail cfg)
      \<and> check e ''password'' (r_password b) (isLength cfg 6))"

definition valid_login :: "config \<Rightarrow> env \<Rightarrow> login_body \<Rightarrow> bool" where
  "valid_login cfg e b =
     (check e ''email'' (l_email b) (isEmail cfg) \<and> check_exists e ''password'' (l_password b))"

text \<open>
  The handler reads \<^verbatim>\<open>name\<close>, \<^verbatim>\<open>email\<close>, \<^verbatim>\<open>password\<close> and \<^verbatim>\<open>institution\<close> from the body, whatever
  place satisfied the checks. \<^verbatim>\<open>bcrypt.hash\<close> rejects a password that is not a string, and
  \<^verbatim>\<open>encodeURIComponent\<close> may throw: both end in the handler's catch, before any write.
\<close>

definition register :: "config \<Rightarrow> env \<Rightarrow> state \<Rightarrow> register_body \<Rightarrow> response \<times> state" where
  "register cfg e st b =
     (case authLimiter e of
        Some r \<Rightarrow> (r, st)
      | None \<Rightarrow>
          if \<not> valid_register cfg e b then (Err 400 ''Validation error'', st)
          else
            (case findOne_email (users st) (r_email b) of
               Some _ \<Rightarrow> (Err 400 ''Email already registered'', st)
             | None \<Rightarrow>
                 (case r_password b of
                    None \<Rightarrow> (Err 500 ''Server error'', st)
                  | Some password \<Rightarrow>
                      (case default_avatar (r_name b) of
                         None \<Rightarrow> (Err 500 ''Server error'', st)
                       | Some av \<Rightarrow>
                           let u = \<lparr>user_id = next_oid st,
                                    name = r_name b,
                                    email = r_email b,
                                    passwordHash = Some (bcrypt_hash password (salt e)),
                                    institution = toString (r_institution b),
                                    avatar = av,
                                    isAdmin = False,
                                    bio = None,
                                    createdAt = now e\<rparr>;
                               st1 = st\<lparr>next_oid := Suc (next_oid st)\<rparr>
                           in (case insert_user u (users st) of
                                 None \<Rightarrow> (Err 500 ''Server error'', st1)
                               | Some us \<Rightarrow>
                                   (AuthOk (view u) (generateToken cfg (now e) u),
                                    st1\<lparr>users := us\<rparr>))))))"

text \<open>\<^verbatim>\<open>bcrypt.compare\<close> rejects a password that is not a string (500).\<close>

definition login :: "config \<Rightarrow> env \<Rightarrow> state \<Rightarrow> login_body \<Rightarrow> response \<times> state" where
  "login cfg e st b =
     (case authLimiter e of
        Some r \<Rightarrow> (r, st)
      | None \<Rightarrow>
          if \<not> valid_login cfg e b then (Err 400 ''Validation error'', st)
          else
            (case findOne_email (users st) (l_email b) of
               None \<Rightarrow> (Err 400 ''Invalid credentials'', st)
             | Some u \<Rightarrow>
                 (case l_password b of
                    None \<Rightarrow> (Err 500 ''Server error'', st)
                  | Some password \<Rightarrow>
                      if \<not> bcrypt_compare password (passwordHash u)
                      then (Err 400 ''Invalid credentials'', st)
                      else (AuthOk (view u) (generateToken cfg (now e) u), st))))"

section \<open>Uploads: multer and the media host\<close>

record upload =
  fieldname :: string
  originalname :: string
  mimetype :: string
  file_size :: nat

fun startsWith :: "string \<Rightarrow> string \<Rightarrow> bool" where
  "startsWith s [] = True"
| "startsWith [] (p # ps) = False"
| "startsWith (c # cs) (p # ps) = (c = p \<and> startsWith cs ps)"

fun includes_str :: "string \<Rightarrow> string \<Rightarrow> bool" where
  "includes_str [] p = (p = [])"
| "includes_str (c # cs) p = (startsWith (c # cs) p \<or> includes_str cs p)"

text \<open>
  \<^verbatim>\<open>multer({storage: memoryStorage, limits, fileFilter}).single(field)\<close> on a request with
  at most one attachment. A request without attachment passes with \<^verbatim>\<open>req.file\<close> undefined.
  An attachment in another field, one the filter refuses and one over the size limit end
  the request with an error (\<open>Inl\<close> its message); the filter runs before any byte is
  kept. \<open>fileFilter\<close> returns the message of the error it calls back with, if any.
\<close>

definition multer_single ::
  "string \<Rightarrow> nat \<Rightarrow> (upload \<Rightarrow> string option) \<Rightarrow> upload option \<Rightarrow> string + upload option" where
  "multer_single field fileSize fileFilter f =
     (case f of
        None \<Rightarrow> Inr None
      | Some u \<Rightarrow>
          if fieldname u \<noteq> field then Inl ''Unexpected field''
          else (case fileFilter u of
                  Some msg \<Rightarrow> Inl msg
                | None \<Rightarrow> if fileSize < file_size u then Inl ''File too large'' else Inr (Some u)))"

definition uploadPDF :: "upload option \<Rightarrow> string + upload option" where
  "uploadPDF =
     multer_single ''file'' (50 * 1024 * 1024)
       (\<lambda>file. if mimetype file = ''application/pdf'' then None
               else Some ''Only PDF files are allowed'')"

definition uploadImage :: "upload option \<Rightarrow> string + upload option" where
  "uploadImage =
     multer_single ''file'' (5 * 1024 * 1024)
       (\<lambda>file. if startsWith (mimetype file) ''image/'' then None
               else Some ''Only image files are allowed for avatar'')"

text \<open>The upload middleware of \<^verbatim>\<open>part_002\<close>: a size limit and no file filter.\<close>

definition upload_v2 :: "upload option \<Rightarrow> string + upload option" where
  "upload_v2 = multer_single ''file'' (50 * 1024 * 1024) (\<lambda>file. None)"

text \<open>The global error handler of the extended server, on an error with message \<open>msg\<close>.\<close>

definition errorHandler :: "string \<Rightarrow> response" where
  "errorHandler msg =
     (if msg \<noteq> [] \<and> includes_str msg ''Only PDF'' then Err 400 msg
      else Err 500 (if msg = [] then ''Server error'' else msg))"

text \<open>
  \<^verbatim>\<open>cloudinary.uploader.destroy(public_id)\<close> inside its own try/catch: when it throws, the
  handler logs a warning and goes on; the object stays.
\<close>

definition destroy :: "env \<Rightarrow> string \<Rightarrow> string set \<Rightarrow> string set" where
  "destroy e public_id m = (if destroy_throws e then m else m - {public_id})"

section \<open>Paper routes of the extended server\<close>

record paper_body =
  pb_title :: "string option"
  pb_desc :: "string option"
  pb_category :: "string option"
  pb_author :: "string option"
  pb_authorAvatar :: "string option"
  pb_collaboration :: "string option"

definition findById :: "paper list \<Rightarrow> oid \<Rightarrow> paper option" where
  "findById ps i = find (\<lambda>p. paper_id p = i) ps"

text \<open>\<^verbatim>\<open>paper.remove()\<close>: the document with this \<^verbatim>\<open>_id\<close>, the collection's key, goes.\<close>

definition removeById :: "oid \<Rightarrow> paper list \<Rightarrow> paper list" where
  "removeById i ps = filter (\<lambda>p. paper_id p \<noteq> i) ps"

text \<open>\<^verbatim>\<open>paper.save()\<close> of a loaded document: the stored document with its \<^verbatim>\<open>_id\<close> is replaced.\<close>

definition save_paper :: "paper \<Rightarrow> paper list \<Rightarrow> paper list" where
  "save_paper p ps = map (\<lambda>q. if paper_id q = paper_id p then p else q) ps"

text \<open>
  \<^verbatim>\<open>find({}).sort({date: -1})\<close>: the documents by descending key. (MongoDB does not fix the
  order of documents with equal keys; here it is the reverse of a stable sort.)
\<close>

definition sort_desc :: "('a \<Rightarrow> 'k::linorder) \<Rightarrow> 'a list \<Rightarrow> 'a list" where
  "sort_desc key xs = rev (sort_key key xs)"

definition get_papers :: "state \<Rightarrow> response \<times> state" where
  "get_papers st = (PaperList (sort_desc date (papers st)), st)"

definition new_paper :: "state \<Rightarrow> env \<Rightarrow> paper_body \<Rightarrow> string \<Rightarrow> string \<Rightarrow> paper" where
  "new_paper st e b secure_url public_id =
     \<lparr>paper_id = next_oid st,
      title = pb_title b,
      desc = pb_desc b,
      category = pb_category b,
      author = pb_author b,
      authorAvatar = pb_authorAvatar b,
      pdfUrl = secure_url,
      cloudinary_public_id = Some public_id,
      collaboration = (pb_collaboration b = Some ''true''),
      likes = 0,
      comments = [],
      date = now e\<rparr>"

text \<open>
  The handler of \<^verbatim>\<open>POST /api/papers\<close> once the middlewares have run: \<open>file\<close> is
  \<^verbatim>\<open>req.file\<close>. The upload to the media host comes first, the record second; an upload
  error is answered 500 and nothing is written.
\<close>

definition upload_and_persist :: "env \<Rightarrow> state \<Rightarrow> upload option \<Rightarrow> paper_body \<Rightarrow> response \<times> state" where
  "upload_and_persist e st file b =
     (case file of
        None \<Rightarrow> (Err 400 ''File required'', st)
      | Some _ \<Rightarrow>
          (case upload_result e of
             UploadError _ \<Rightarrow> (Err 500 ''Upload failed'', st)
           | Uploaded secure_url public_id \<Rightarrow>
               let p = new_paper st e b secure_url public_id
               in (PaperJson p,
                   st\<lparr>papers := papers st @ [p],
                      media := insert public_id (media st),
                      next_oid := Suc (next_oid st)\<rparr>)))"

text \<open>
  \<^verbatim>\<open>POST /api/papers\<close>: \<^verbatim>\<open>authMiddleware\<close>, \<^verbatim>\<open>uploadLimiter\<close>, \<^verbatim>\<open>uploadPDF.single('file')\<close>,
  the two checks, the handler.
\<close>

definition valid_paper :: "config \<Rightarrow> env \<Rightarrow> paper_body \<Rightarrow> bool" where
  "valid_paper cfg e b =
     (check e ''title'' (pb_title b) (isLength cfg 1)
      \<and> check e ''author'' (pb_author b) (isLength cfg 1))"

definition post_paper ::
  "config \<Rightarrow> env \<Rightarrow> state \<Rightarrow> header \<Rightarrow> upload option \<Rightarrow> paper_body \<Rightarrow> response \<times> state" where
  "post_paper cfg e st h f b =
     (case authMiddleware cfg e h of
        Inl r \<Rightarrow> (r, st)
      | Inr _ \<Rightarrow>
          (case uploadLimiter e of
             Some r \<Rightarrow> (r, st)
           | None \<Rightarrow>
               (case uploadPDF f of
                  Inl msg \<Rightarrow> (errorHandler msg, st)
                | Inr file \<Rightarrow>
                    if \<not> valid_paper cfg e b then (Err 400 ''Validation error'', st)
                    else upload_and_persist e st file b)))"

text \<open>
  \<^verbatim>\<open>DELETE /api/papers/:id\<close>, the same text in \<^verbatim>\<open>part_000\<close> and \<^verbatim>\<open>part_002\<close>. The author is
  whoever bears the name stored in the paper's \<^verbatim>\<open>author\<close> field
  (\<^verbatim>\<open>req.user.name === paper.author\<close>, also when both are undefined).
\<close>

definition delete_paper :: "config \<Rightarrow> env \<Rightarrow> state \<Rightarrow> header \<Rightarrow> id_param \<Rightarrow> response \<times> state" where
  "delete_paper cfg e st h pid =
     (case authMiddleware cfg e h of
        Inl r \<Rightarrow> (r, st)
      | Inr u \<Rightarrow>
          (case pid of
             NotAnOid _ \<Rightarrow> (Err 500 ''Server error'', st)
           | Oid i \<Rightarrow>
               (case findById (papers st) i of
                  None \<Rightarrow> (Err 404 ''Not found'', st)
                | Some p \<Rightarrow>
                    let isAuthor = (tok_name u = author p);
                        isAdmin = tok_isAdmin u
                    in if \<not> isAuthor \<and> \<not> isAdmin then (Err 403 ''Forbidden'', st)
                       else
                         let m = (case cloudinary_public_id p of
                                    None \<Rightarrow> media st
                                  | Some public_id \<Rightarrow>
                                      if public_id = [] then media st
                                      else destroy e public_id (media st))
                         in (OkTrue, st\<lparr>media := m, papers := removeById i (papers st)\<rparr>))))"

definition push_comment :: "env \<Rightarrow> claims \<Rightarrow> string option \<Rightarrow> paper \<Rightarrow> paper" where
  "push_comment e u txt p =
     p\<lparr>comments := comments p @ [\<lparr>c_author = tok_name u, c_avatar = [], c_text = txt, c_time = now e\<rparr>]\<rparr>"

definition append_comment ::
  "env \<Rightarrow> state \<Rightarrow> claims \<Rightarrow> id_param \<Rightarrow> string option \<Rightarrow> response \<times> state" where
  "append_comment e st u pid txt =
     (case pid of
        NotAnOid _ \<Rightarrow> (Err 500 ''Server error'', st)
      | Oid i \<Rightarrow>
          (case findById (papers st) i of
             None \<Rightarrow> (Err 404 ''Not found'', st)
           | Some p \<Rightarrow>
               let p' = push_comment e u txt p
               in (CommentsOk (comments p'), st\<lparr>papers := save_paper p' (papers st)\<rparr>)))"

definition post_comment ::
  "config \<Rightarrow> env \<Rightarrow> state \<Rightarrow> header \<Rightarrow> id_param \<Rightarrow> string option \<Rightarrow> response \<times> state" where
  "post_comment cfg e st h pid txt =
     (case authMiddleware cfg e h of
        Inl r \<Rightarrow> (r, st)
      | Inr u \<Rightarrow>
          if \<not> check e ''text'' txt (isLength cfg 1) then (Err 400 ''Validation error'', st)
          else append_comment e st u pid txt)"

section \<open>Paper routes of \<^verbatim>\<open>part_002\<close>\<close>

text \<open>
  No validators and no file filter; an error of the upload middleware goes to Express's
  default handler (500).
\<close>

definition post_paper_v2 ::
  "config \<Rightarrow> env \<Rightarrow> state \<Rightarrow> header \<Rightarrow> upload option \<Rightarrow> paper_body \<Rightarrow> response \<times> state" where
  "post_paper_v2 cfg e st h f b =
     (case authMiddleware cfg e h of
        Inl r \<Rightarrow> (r, st)
      | Inr _ \<Rightarrow>
          (case upload_v2 f of
             Inl msg \<Rightarrow> (Err 500 msg, st)
           | Inr file \<Rightarrow> upload_and_persist e st file b))"

definition post_comment_v2 ::
  "config \<Rightarrow> env \<Rightarrow> state \<Rightarrow> header \<Rightarrow> id_param \<Rightarrow> string option \<Rightarrow> response \<times> state" where
  "post_comment_v2 cfg e st h pid txt =
     (case authMiddleware cfg e h of
        Inl r \<Rightarrow> (r, st)
      | Inr u \<Rightarrow>
          if toString txt = [] then (Err 400 ''Text required'', st)
          else append_comment e st u pid txt)"

section \<open>Avatar, news and event routes of the extended server\<close>

definition findUserById :: "user list \<Rightarrow> oid \<Rightarrow> user option" where
  "findUserById us i = find (\<lambda>u. user_id u = i) us"

definition save_user :: "user \<Rightarrow> user list \<Rightarrow> user list" where
  "save_user u us = map (\<lambda>v. if user_id v = user_id u then u else v) us"

text \<open>
  The image is uploaded before the user is looked up, so the object stays on the media
  host when the lookup answers 404.
\<close>

definition post_avatar :: "config \<Rightarrow> env \<Rightarrow> state \<Rightarrow> header \<Rightarrow> upload option \<Rightarrow> response \<times> state" where
  "post_avatar cfg e st h f =
     (case authMiddleware cfg e h of
        Inl r \<Rightarrow> (r, st)
      | Inr u \<Rightarrow>
          (case uploadImage f of
             Inl msg \<Rightarrow> (errorHandler msg, st)
           | Inr None \<Rightarrow> (Err 400 ''File required'', st)
           | Inr (Some _) \<Rightarrow>
               (case upload_result e of
                  UploadError _ \<Rightarrow> (Err 500 ''Avatar upload failed'', st)
                | Uploaded secure_url public_id \<Rightarrow>
                    let st1 = st\<lparr>media := insert public_id (media st)\<rparr>
                    in (case findUserById (users st) (tok_id u) of
                          None \<Rightarrow> (Err 404 ''User not found'', st1)
                        | Some x \<Rightarrow>
                            (AvatarOk secure_url,
                             st1\<lparr>users := save_user (x\<lparr>avatar := secure_url\<rparr>) (users st)\<rparr>)))))"

record news_body =
  nb_title :: "string option"
  nb_desc :: "string option"
  nb_tag :: "string option"
  nb_img :: "string option"

record event_body =
  eb_title :: "string option"
  eb_desc :: "string option"
  eb_type :: "string option"
  eb_day :: "string option"
  eb_month :: "string option"
  eb_location :: "string option"

definition get_news :: "state \<Rightarrow> response \<times> state" where
  "get_news st = (NewsList (sort_desc n_createdAt (news st)), st)"

text \<open>\<open>n_date\<close> holds the clock reading that the server formats as a ru-RU date.\<close>

definition post_news :: "config \<Rightarrow> env \<Rightarrow> state \<Rightarrow> header \<Rightarrow> news_body \<Rightarrow> response \<times> state" where
  "post_news cfg e st h b =
     (case authMiddleware cfg e h of
        Inl r \<Rightarrow> (r, st)
      | Inr u \<Rightarrow>
          if \<not> check e ''title'' (nb_title b) (isLength cfg 1)
          then (Err 400 ''Validation error'', st)
          else
            let item = \<lparr>news_id = next_oid st, n_title = nb_title b, n_desc = nb_desc b,
                         n_tag = nb_tag b, n_img = nb_img b, n_date = now e,
                         n_author = tok_name u, n_createdAt = now e\<rparr>
            in (NewsJson item, st\<lparr>news := news st @ [item], next_oid := Suc (next_oid st)\<rparr>))"

definition delete_news :: "config \<Rightarrow> env \<Rightarrow> state \<Rightarrow> header \<Rightarrow> id_param \<Rightarrow> response \<times> state" where
  "delete_news cfg e st h pid =
     (case authMiddleware cfg e h of
        Inl r \<Rightarrow> (r, st)
      | Inr u \<Rightarrow>
          if \<not> tok_isAdmin u then (Err 403 ''Forbidden'', st)
          else (case pid of
                  NotAnOid _ \<Rightarrow> (Err 500 ''Server error'', st)
                | Oid i \<Rightarrow> (OkTrue, st\<lparr>news := filter (\<lambda>n. news_id n \<noteq> i) (news st)\<rparr>)))"

definition get_events :: "state \<Rightarrow> response \<times> state" where
  "get_events st = (EventList (sort_desc e_createdAt (events st)), st)"

text \<open>The route declares a check on \<^verbatim>\<open>title\<close> and never reads its result.\<close>

definition post_event :: "config \<Rightarrow> env \<Rightarrow> state \<Rightarrow> header \<Rightarrow> event_body \<Rightarrow> response \<times> state" where
  "post_event cfg e st h b =
     (case authMiddleware cfg e h of
        Inl r \<Rightarrow> (r, st)
      | Inr u \<Rightarrow>
          let item = \<lparr>event_id = next_oid st, e_title = eb_title b, e_desc = eb_desc b,
                       e_type = eb_type b, e_day = eb_day b, e_month = eb_month b,
                       e_location = eb_location b, e_createdAt = now e\<rparr>
          in (EventJson item, st\<lparr>events := events st @ [item], next_oid := Suc (next_oid st)\<rparr>))"

definition delete_event :: "config \<Rightarrow> env \<Rightarrow> state \<Rightarrow> header \<Rightarrow> id_param \<Rightarrow> response \<times> state" where
  "delete_event cfg e st h pid =
     (case authMiddleware cfg e h of
        Inl r \<Rightarrow> (r, st)
      | Inr u \<Rightarrow>
          if \<not> tok_isAdmin u then (Err 403 ''Forbidden'', st)
          else (case pid of
                  NotAnOid _ \<Rightarrow> (Err 500 ''Server error'', st)
                | Oid i \<Rightarrow> (OkTrue, st\<lparr>events := filter (\<lambda>x. event_id x \<noteq> i) (events st)\<rparr>)))"

section \<open>The extended server as a transition system\<close>

datatype request =
    GetHealth
  | PostRegister register_body
  | PostLogin login_body
  | GetPapers
  | PostPaper header "upload option" paper_body
  | DeletePaper header id_param
  | PostComment header id_param "string option"
  | PostAvatar header "upload option"
  | GetNews
  | PostNews header news_body
  | DeleteNews header id_param
  | GetEvents
  | PostEvent header event_body
  | DeleteEvent header id_param

fun step :: "config \<Rightarrow> state \<Rightarrow> env \<times> request \<Rightarrow> response \<times> state" where
  "step cfg st (e, GetHealth) = (HealthOk, st)"
| "step cfg st (e, PostRegister b) = register cfg e st b"
| "step cfg st (e, PostLogin b) = login cfg e st b"
| "step cfg st (e, GetPapers) = get_papers st"
| "step cfg st (e, PostPaper h f b) = post_paper cfg e st h f b"
| "step cfg st (e, DeletePaper h pid) = delete_paper cfg e st h pid"
| "step cfg st (e, PostComment h pid txt) = post_comment cfg e st h pid txt"
| "step cfg st (e, PostAvatar h f) = post_avatar cfg e st h f"
| "step cfg st (e, GetNews) = get_news st"
| "step cfg st (e, PostNews h b) = post_news cfg e st h b"
| "step cfg st (e, DeleteNews h pid) = delete_news cfg e st h pid"
| "step cfg st (e, GetEvents) = get_events st"
| "step cfg st (e, PostEvent h b) = post_event cfg e st h b"
| "step cfg st (e, DeleteEvent h pid) = delete_event cfg e st h pid"

text \<open>The state after a sequence of requests, and the responses along the way.\<close>

fun run :: "config \<Rightarrow> state \<Rightarrow> (env \<times> request) list \<Rightarrow> state" where
  "run cfg st [] = st"
| "run cfg st (r # rs) = run cfg (snd (step cfg st r)) rs"

fun responses :: "config \<Rightarrow> state \<Rightarrow> (env \<times> request) list \<Rightarrow> response list" where
  "responses cfg st [] = []"
| "responses cfg st (r # rs) = fst (step cfg st r) # responses cfg (snd (step cfg st r)) rs"

definition token_of :: "response \<Rightarrow> token option" where
  "token_of r = (case r of AuthOk _ tok \<Rightarrow> Some tok | _ \<Rightarrow> None)"

section \<open>The server without auth (\<^verbatim>\<open>part_001\<close>)\<close>

text \<open>
  Its Paper schema has the content URL and no storage handle. The upload middleware is
  multer on a CloudinaryStorage: the attachment is sent to the media host before the
  handler runs, and \<^verbatim>\<open>req.file.path\<close> is the URL the host answers. Responses are
  their status codes. \<^verbatim>\<open>DELETE /api/papers/:id\<close> of the second document of
  \<^verbatim>\<open>src/server.js\<close> makes the same calls.
\<close>

record paper1 =
  p1_id :: oid
  p1_title :: "string option"
  p1_desc :: "string option"
  p1_category :: "string option"
  p1_author :: "string option"
  p1_authorAvatar :: "string option"
  p1_pdfUrl :: string
  p1_collaboration :: string
  p1_date :: int
  p1_likes :: nat

record state1 =
  papers1 :: "paper1 list"
  media1 :: "string set"
  next_oid1 :: oid

datatype response1 = Papers1 "paper1 list" | Created1 paper1 | Success1 | Err1 nat

definition get_papers_v1 :: "state1 \<Rightarrow> response1 \<times> state1" where
  "get_papers_v1 st = (Papers1 (sort_desc p1_id (papers1 st)), st)"

definition post_paper_v1 :: "env \<Rightarrow> state1 \<Rightarrow> upload option \<Rightarrow> paper_body \<Rightarrow> response1 \<times> state1" where
  "post_paper_v1 e st f b =
     (case f of
        None \<Rightarrow> (Err1 400, st)
      | Some u \<Rightarrow>
          if fieldname u \<noteq> ''file'' then (Err1 500, st)
          else (case upload_result e of
                  UploadError _ \<Rightarrow> (Err1 500, st)
                | Uploaded secure_url public_id \<Rightarrow>
                    let p = \<lparr>p1_id = next_oid1 st, p1_title = pb_title b, p1_desc = pb_desc b,
                             p1_category = pb_category b, p1_author = pb_author b,
                             p1_authorAvatar = pb_authorAvatar b, p1_pdfUrl = secure_url,
                             p1_collaboration =
                               (case pb_collaboration b of None \<Rightarrow> ''false'' | Some c \<Rightarrow> c),
                             p1_date = now e, p1_likes = 0\<rparr>
                    in (Created1 p,
                        st\<lparr>papers1 := papers1 st @ [p],
                           media1 := insert public_id (media1 st),
                           next_oid1 := Suc (next_oid1 st)\<rparr>)))"

definition delete_paper_v1 :: "state1 \<Rightarrow> header \<Rightarrow> id_param \<Rightarrow> response1 \<times> state1" where
  "delete_paper_v1 st h pid =
     (case pid of
        NotAnOid _ \<Rightarrow> (Err1 500, st)
      | Oid i \<Rightarrow>
          (case find (\<lambda>p. p1_id p = i) (papers1 st) of
             None \<Rightarrow> (Err1 404, st)
           | Some _ \<Rightarrow> (Success1, st\<lparr>papers1 := filter (\<lambda>p. p1_id p \<noteq> i) (papers1 st)\<rparr>)))"

section \<open>Invariants of the paper collection\<close>

text \<open>Every stored paper has an id the counter has already passed.\<close>

definition ids_fresh :: "state \<Rightarrow> bool" where
  "ids_fresh st = (\<forall>p\<in>set (papers st). paper_id p < next_oid st)"

text \<open>The id \<open>i\<close> was given out and no stored paper has it.\<close>

definition gone :: "oid \<Rightarrow> state \<Rightarrow> bool" where
  "gone i st = (i < next_oid st \<and> (\<forall>p\<in>set (papers st). paper_id p < next_oid st \<and> paper_id p \<noteq> i))"

text \<open>A request's \<^verbatim>\<open>:id\<close> that no stored paper has.\<close>

definition matches_no_paper :: "state \<Rightarrow> id_param \<Rightarrow> bool" where
  "matches_no_paper st pid =
     (case pid of Oid i \<Rightarrow> findById (papers st) i = None | NotAnOid _ \<Rightarrow> True)"

section \<open>Invariants of the user collection\<close>

text \<open>
  No two stored users share an email or an id, and every stored id is one the counter has
  already passed.
\<close>

definition users_ok :: "state \<Rightarrow> bool" where
  "users_ok st =
     (distinct (map email (users st)) \<and> distinct (map user_id (users st))
      \<and> (\<forall>u\<in>set (users st). user_id u < next_oid st))"

definition no_admin :: "state \<Rightarrow> bool" where
  "no_admin st = (\<forall>u\<in>set (users st). \<not> isAdmin u)"

text \<open>A token that does not carry \<^verbatim>\<open>isAdmin: true\<close>.\<close>

definition plain_token :: "token \<Rightarrow> bool" where
  "plain_token tok = (case tok of Signed _ c \<Rightarrow> \<not> tok_isAdmin c | Unparsable _ \<Rightarrow> True)"

text \<open>The tokens that a sequence of requests is answered with.\<close>

definition issued :: "config \<Rightarrow> state \<Rightarrow> (env \<times> request) list \<Rightarrow> token list" where
  "issued cfg st rs = List.map_filter token_of (responses cfg st rs)"

section \<open>Sequences of requests to one route\<close>

fun serve :: "('q \<Rightarrow> 's \<Rightarrow> 'r \<times> 's) \<Rightarrow> 's \<Rightarrow> 'q list \<Rightarrow> 'r list \<times> 's" where
  "serve handler st [] = ([], st)"
| "serve handler st (q # qs) =
     (case handler q st of (r, st1) \<Rightarrow>
        (case serve handler st1 qs of (rs, st2) \<Rightarrow> (r # rs, st2)))"

definition paper_of :: "response \<Rightarrow> paper option" where
  "paper_of r = (case r of PaperJson p \<Rightarrow> Some p | _ \<Rightarrow> None)"

definition paper1_of :: "response1 \<Rightarrow> paper1 option" where
  "paper1_of r = (case r of Created1 p \<Rightarrow> Some p | _ \<Rightarrow> None)"

text \<open>The three \<^verbatim>\<open>POST /api/papers\<close> routes, on a request and its environment.\<close>

definition create :: "config \<Rightarrow> env \<times> header \<times> upload option \<times> paper_body \<Rightarrow> state \<Rightarrow> response \<times> state" where
  "create cfg q st = (case q of (e, h, f, b) \<Rightarrow> post_paper cfg e st h f b)"

definition create_v2 :: "config \<Rightarrow> env \<times> header \<times> upload option \<times> paper_body \<Rightarrow> state \<Rightarrow> response \<times> state" where
  "create_v2 cfg q st = (case q of (e, h, f, b) \<Rightarrow> post_paper_v2 cfg e st h f b)"

definition create_v1 :: "env \<times> upload option \<times> paper_body \<Rightarrow> state1 \<Rightarrow> response1 \<times> state1" where
  "create_v1 q st = (case q of (e, f, b) \<Rightarrow> post_paper_v1 e st f b)"

section \<open>Sample configuration and requests\<close>

text \<open>
  The code points of a string: the bytes that are not continuation bytes (\<^verbatim>\<open>80..BF\<close>).
\<close>

definition code_points :: "string \<Rightarrow> nat" where
  "code_points s =
     length (filter (\<lambda>c. \<not> ((0x80 :: nat) \<le> of_char c \<and> of_char c \<le> (0xBF :: nat))) s)"

text \<open>
  In the sample configuration an email is a string with an \<^verbatim>\<open>@\<close>, and the length of a
  string is the number of its code points (the UTF-16 length less one for every surrogate
  pair).
\<close>

definition sample_config :: config where
  "sample_config = \<lparr>JWT_SECRET = ''dev_secret'', isEmail = (\<lambda>s. CHR ''@'' \<in> set s),
                    isLength = (\<lambda>m s. m \<le> code_points s)\<rparr>"

definition sample_env :: env where
  "sample_env = \<lparr>now = 5000, salt = ''s'',
                 upload_result = Uploaded ''https://res/unida/a.pdf'' ''unida/a'',
                 destroy_throws = False, auth_hits = 1, upload_hits = 1, elsewhere = []\<rparr>"

definition alice :: user where
  "alice = \<lparr>user_id = 0, name = Some ''Al'', email = Some ''a@x.com'',
            passwordHash = Some (bcrypt_hash ''secret1'' ''s''), institution = [],
            avatar = ''https://ui-avatars.com/api/?name=Al&background=76935C&color=fff'',
            isAdmin = False, bio = None, createdAt = 5000\<rparr>"


definition sample_register :: register_body where
  "sample_register = \<lparr>r_name = Some ''Al'', r_email = Some ''a@x.com'',
                      r_password = Some ''secret1'', r_institution = None\<rparr>"

definition sample_login :: login_body where
  "sample_login = \<lparr>l_email = Some ''a@x.com'', l_password = Some ''secret1''\<rparr>"

definition sample_body :: paper_body where
  "sample_body = \<lparr>pb_title = Some ''T'', pb_desc = None, pb_category = None,
                  pb_author = Some ''Al'', pb_authorAvatar = None, pb_collaboration = None\<rparr>"

definition pdf_file :: upload where
  "pdf_file = \<lparr>fieldname = ''file'', originalname = ''a.pdf'',
               mimetype = ''application/pdf'', file_size = 100\<rparr>"

definition text_file :: upload where
  "text_file = \<lparr>fieldname = ''file'', originalname = ''a.txt'',
                mimetype = ''text/plain'', file_size = 100\<rparr>"

text \<open>A paper by \<open>alice\<close>, as \<open>post_paper\<close> stores it, and a state that holds it.\<close>

definition sample_paper :: paper where
  "sample_paper = new_paper init sample_env sample_body ''https://res/unida/a.pdf'' ''unida/a''"

definition sample_state :: state where
  "sample_state = init\<lparr>papers := [sample_paper], media := {''unida/a''}, next_oid := 1\<rparr>"

text \<open>The eleventh auth request and the seventh upload of a minute.\<close>

definition eleventh :: env where
  "eleventh = sample_env\<lparr>auth_hits := 11\<rparr>"

definition seventh :: env where
  "seventh = sample_env\<lparr>upload_hits := 7\<rparr>"


definition empty_text_in_query :: env where
  "empty_text_in_query = sample_env\<lparr>elsewhere := [(''text'', [])]\<rparr>"



definition failing_destroy :: env where
  "failing_destroy = sample_env\<lparr>destroy_throws := True\<rparr>"

definition sample_paper1 :: paper1 where
  "sample_paper1 = \<lparr>p1_id = 0, p1_title = Some ''T'', p1_desc = None, p1_category = None,
                    p1_author = Some ''Al'', p1_authorAvatar = None,
                    p1_pdfUrl = ''https://res/unida_papers/file-5000.pdf'',
                    p1_collaboration = ''false'', p1_date = 5000, p1_likes = 0\<rparr>"

definition sample_state1 :: state1 where
  "sample_state1 = \<lparr>papers1 = [sample_paper1], media1 = {''unida_papers/file-5000''},
                    next_oid1 = 1\<rparr>"

definition one_user :: state where
  "one_user = init\<lparr>users := [alice], next_oid := 1\<rparr>"

definition later_env :: env where
  "later_env = \<lparr>now = 9000, salt = ''s'',
                upload_result = Uploaded ''https://res/unida/b.pdf'' ''unida/b'',
                destroy_throws = False, auth_hits = 1, upload_hits = 2, elsewhere = []\<rparr>"

definition second_paper :: paper where
  "second_paper = new_paper sample_state later_env sample_body ''https://res/unida/b.pdf'' ''unida/b''"

definition two_uploads :: "(env \<times> header \<times> upload option \<times> paper_body) list" where
  "two_uploads =
     [(sample_env, Bearer (generateToken sample_config 5000 alice), Some pdf_file, sample_body),
      (later_env, Bearer (generateToken sample_config 5000 alice), Some pdf_file, sample_body)]"

definition two_uploads_v1 :: "(env \<times> upload option \<times> paper_body) list" where
  "two_uploads_v1 = [(sample_env, Some pdf_file, sample_body), (later_env, Some pdf_file, sample_body)]"

definition second_paper1 :: paper1 where
  "second_paper1 = \<lparr>p1_id = 1, p1_title = Some ''T'', p1_desc = None, p1_category = None,
                     p1_author = Some ''Al'', p1_authorAvatar = None,
                     p1_pdfUrl = ''https://res/unida/b.pdf'',
                     p1_collaboration = ''false'', p1_date = 9000, p1_likes = 0\<rparr>"

definition first_paper1 :: paper1 where
  "first_paper1 = sample_paper1\<lparr>p1_pdfUrl := ''https://res/unida/a.pdf''\<rparr>"

definition init1 :: state1 where
  "init1 = \<lparr>papers1 = [], media1 = {}, next_oid1 = 0\<rparr>"

section \<open>Token issuance\<close>

lemma generateToken_eq:
  "generateToken cfg clock u =
     Signed (JWT_SECRET cfg)
       \<lparr>tok_id = user_id u, tok_email = email u, tok_name = name u, tok_isAdmin = isAdmin u,
        iat = clock div 1000, exp_at = clock div 1000 + 2592000\<rparr>"
  by (simp add: generateToken_def jwt_sign_def thirty_days_def)

lemma login_state: "snd (login cfg e st b) = st"
  by (simp add: login_def split: option.split)

lemma jwt_verify_generateToken:
  "jwt_verify (generateToken cfg t0 u) (JWT_SECRET cfg) t =
     (if t div 1000 < t0 div 1000 + 2592000
      then Some \<lparr>tok_id = user_id u, tok_email = email u, tok_name = name u,
                  tok_isAdmin = isAdmin u, iat = t0 div 1000, exp_at = t0 div 1000 + 2592000\<rparr>
      else None)"
  by (simp add: generateToken_eq jwt_verify_def)

text \<open>
  C7, as amended. Issuing a token writes nothing: \<open>login\<close>, which only looks the user up
  and issues, returns the state it was given. For one secret, the token is fixed by the
  user's id, email, name and \<open>isAdmin\<close> and by the clock second of the call, and by nothing
  else of the user: two calls return the same token exactly when they agree on these
  five. \<^verbatim>\<open>jwt.verify\<close> gives the four fields back with \<^verbatim>\<open>iat\<close>, the second of the call, and
  \<^verbatim>\<open>exp\<close>, 30 days (2592000 seconds) later, until the clock reaches \<^verbatim>\<open>exp\<close>.
\<close>

theorem generateToken_deterministic:
  "(generateToken cfg t u = generateToken cfg t' u' \<longleftrightarrow>
      t div 1000 = t' div 1000 \<and> user_id u = user_id u' \<and> email u = email u'
      \<and> name u = name u' \<and> isAdmin u = isAdmin u')
   \<and> jwt_verify (generateToken cfg t u) (JWT_SECRET cfg) clock =
       (if clock div 1000 < t div 1000 + 30 * 24 * 60 * 60
        then Some \<lparr>tok_id = user_id u, tok_email = email u, tok_name = name u,
                    tok_isAdmin = isAdmin u, iat = t div 1000,
                    exp_at = t div 1000 + 30 * 24 * 60 * 60\<rparr>
        else None)
   \<and> expiry (generateToken cfg t u) = Some (t div 1000 + 30 * 24 * 60 * 60)
   \<and> issued_at (generateToken cfg t u) = Some (t div 1000)
   \<and> snd (login cfg e st b) = st"
  by (auto simp: generateToken_eq jwt_verify_def expiry_def issued_at_def login_state)

theorem generateToken_deterministic_witness:
  "generateToken sample_config 5000 alice = generateToken sample_config 5999 alice
   \<and> jwt_verify (generateToken sample_config 5000 alice) ''dev_secret'' 2592004999 =
       Some \<lparr>tok_id = 0, tok_email = Some ''a@x.com'', tok_name = Some ''Al'',
             tok_isAdmin = False, iat = 5, exp_at = 2592005\<rparr>
   \<and> jwt_verify (generateToken sample_config 5000 alice) ''dev_secret'' 2592005000 = None
   \<and> expiry (generateToken sample_config 5000 alice) = Some 2592005"
proof -
  note t1 = generateToken_deterministic
      [of sample_config 5000 alice 5999 alice 2592004999 sample_env init sample_login]
  note t2 = generateToken_deterministic
      [of sample_config 5000 alice 5999 alice 2592005000 sample_env init sample_login]
  have k: "JWT_SECRET sample_config = ''dev_secret''"
    by (simp add: sample_config_def)
  have a: "user_id alice = 0" "email alice = Some ''a@x.com''" "name alice = Some ''Al''"
    "isAdmin alice = False"
    by (simp_all add: alice_def)
  from t1 have "generateToken sample_config 5000 alice = generateToken sample_config 5999 alice"
    by simp
  moreover from t1 [THEN conjunct2, THEN conjunct1]
  have "jwt_verify (generateToken sample_config 5000 alice) ''dev_secret'' 2592004999 =
       Some \<lparr>tok_id = 0, tok_email = Some ''a@x.com'', tok_name = Some ''Al'',
             tok_isAdmin = False, iat = 5, exp_at = 2592005\<rparr>"
    by (simp add: k a)
  moreover from t2 [THEN conjunct2, THEN conjunct1]
  have "jwt_verify (generateToken sample_config 5000 alice) ''dev_secret'' 2592005000 = None"
    by (simp add: k)
  moreover from t1 [THEN conjunct2, THEN conjunct2, THEN conjunct1]
  have "expiry (generateToken sample_config 5000 alice) = Some 2592005"
    by simp
  ultimately show ?thesis by blast
qed

text \<open>
  With the same secret and the same expiry of 30 days, two calls on the same user in
  different clock seconds return different tokens.
\<close>

theorem token_differs_counterexample:
  "generateToken sample_config 5999 alice \<noteq> generateToken sample_config 6000 alice
   \<and> expiry (generateToken sample_config 5999 alice) = Some (5 + 30 * 24 * 60 * 60)
   \<and> expiry (generateToken sample_config 6000 alice) = Some (6 + 30 * 24 * 60 * 60)"
  by (simp add: generateToken_eq expiry_def)

section \<open>Register, login, verify\<close>

lemma findOne_email_None: "findOne_email us (Some x) = None \<longleftrightarrow> Some x \<notin> set (map email us)"
  by (force simp: findOne_email_def find_None_iff image_iff)






lemma sample_register_valid: "valid_register sample_config sample_env sample_register"
  by (simp add: valid_register_def check_def located_def sample_env_def sample_register_def
        sample_config_def code_points_def)




section \<open>Uploading a paper\<close>

lemma uploadPDF_refuses:
  "mimetype u \<noteq> ''application/pdf'' \<Longrightarrow>
     uploadPDF (Some u) =
       Inl (if fieldname u \<noteq> ''file'' then ''Unexpected field'' else ''Only PDF files are allowed'')"
  by (simp add: uploadPDF_def multer_single_def)

lemma errorHandler_only_pdf:
  "errorHandler ''Only PDF files are allowed'' = Err 400 ''Only PDF files are allowed''"
  by (simp add: errorHandler_def)

lemma errorHandler_unexpected: "errorHandler ''Unexpected field'' = Err 500 ''Unexpected field''"
  by (simp add: errorHandler_def)

lemma authMiddleware_status: "authMiddleware cfg e h = Inl r \<Longrightarrow> status r = 401"
  by (auto simp: authMiddleware_def status_def split: header.splits option.splits)

lemma uploadLimiter_status: "uploadLimiter e = Some r \<Longrightarrow> status r = 429"
  by (auto simp: uploadLimiter_def rateLimit_def status_def split: if_splits)

text \<open>
  C2 (extended server). A paper upload whose attachment is not \<^verbatim>\<open>application/pdf\<close> leaves
  the state as it was: no object reaches the media host and no Paper is stored. The
  answer is the 401 of \<open>authMiddleware\<close> for a request without a valid token, else the
  429 of \<open>uploadLimiter\<close> for a request over the limit, else the 400
  \<^verbatim>\<open>Only PDF files are allowed\<close> of the file filter (500 when the attachment is not in the
  field \<^verbatim>\<open>file\<close>).
\<close>

theorem non_pdf_rejected:
  assumes "mimetype u \<noteq> ''application/pdf''"
  shows "snd (post_paper cfg e st h (Some u) b) = st
       \<and> fst (post_paper cfg e st h (Some u) b) =
           (case authMiddleware cfg e h of
              Inl r \<Rightarrow> r
            | Inr c \<Rightarrow>
                (case uploadLimiter e of
                   Some r \<Rightarrow> r
                 | None \<Rightarrow> if fieldname u \<noteq> ''file'' then Err 500 ''Unexpected field''
                           else Err 400 ''Only PDF files are allowed''))
       \<and> status (fst (post_paper cfg e st h (Some u) b)) \<in> {400, 401, 429, 500}"
proof (cases "authMiddleware cfg e h")
  case (Inl r)
  then show ?thesis
    by (simp add: post_paper_def authMiddleware_status)
next
  case (Inr c)
  show ?thesis
  proof (cases "uploadLimiter e")
    case None
    with Inr assms show ?thesis
      by (simp add: post_paper_def uploadPDF_refuses errorHandler_only_pdf
            errorHandler_unexpected status_def)
  next
    case (Some r)
    with Inr show ?thesis
      by (simp add: post_paper_def uploadLimiter_status)
  qed
qed

lemma sample_uploadLimiter: "uploadLimiter sample_env = None" "uploadLimiter later_env = None"
  by (simp_all add: uploadLimiter_def rateLimit_def sample_env_def later_env_def)

lemma alice_token_ok:
  "authMiddleware sample_config sample_env (Bearer (generateToken sample_config 5000 alice)) =
     Inr \<lparr>tok_id = 0, tok_email = Some ''a@x.com'', tok_name = Some ''Al'', tok_isAdmin = False,
          iat = 5, exp_at = 2592005\<rparr>"
  by (simp add: authMiddleware_def jwt_verify_generateToken alice_def sample_env_def)


theorem non_pdf_rejected_witness:
  "mimetype text_file \<noteq> ''application/pdf''
   \<and> post_paper sample_config sample_env init
        (Bearer (generateToken sample_config 5000 alice)) (Some text_file) sample_body
       = (Err 400 ''Only PDF files are allowed'', init)"
proof -
  have m: "mimetype text_file \<noteq> ''application/pdf''"
    by (simp add: text_file_def)
  have f: "fieldname text_file = ''file''"
    by (simp add: text_file_def)
  from non_pdf_rejected [OF m, of sample_config sample_env init
      "Bearer (generateToken sample_config 5000 alice)" sample_body]
  show ?thesis
    using m by (simp add: alice_token_ok sample_uploadLimiter f prod_eq_iff)
qed

lemma upload_v2_text_file: "upload_v2 (Some text_file) = Inr (Some text_file)"
  by (simp add: upload_v2_def multer_single_def text_file_def)

lemma persist_sample:
  "upload_and_persist sample_env init (Some f) sample_body = (PaperJson sample_paper, sample_state)"
  by (simp add: upload_and_persist_def sample_env_def sample_paper_def sample_state_def init_def
        new_paper_def Let_def)

text \<open>
  On \<^verbatim>\<open>part_002\<close>, whose upload middleware has no file filter, the same plain-text
  upload is stored on the media host and recorded.
\<close>

theorem non_pdf_stored_counterexample:
  "mimetype text_file \<noteq> ''application/pdf''
   \<and> post_paper_v2 sample_config sample_env init
        (Bearer (generateToken sample_config 5000 alice)) (Some text_file) sample_body
       = (PaperJson sample_paper, sample_state)
   \<and> papers sample_state = [sample_paper] \<and> ''unida/a'' \<in> media sample_state
   \<and> papers init = [] \<and> media init = {}"
  by (simp add: post_paper_v2_def alice_token_ok upload_v2_text_file persist_sample)
     (simp add: text_file_def sample_state_def init_def)

section \<open>Deleting a paper\<close>


lemma sample_paper_found: "findById (papers sample_state) 0 = Some sample_paper"
  by (simp add: findById_def sample_state_def sample_paper_def new_paper_def init_def)

lemma sample_paper_author: "author sample_paper = Some ''Al''"
  by (simp add: sample_paper_def new_paper_def sample_body_def)


lemma sample_v1_found:
  "find (\<lambda>p. p1_id p = 0) (papers1 sample_state1) = Some sample_paper1"
  by (simp add: sample_state1_def sample_paper1_def)

text \<open>
  C9. Without auth middleware, a delete request for a stored paper's id succeeds whatever
  the \<^verbatim>\<open>Authorization\<close> header is (the handler never reads it), removes the documents
  with that id and no other, and leaves the media host's objects as they were.
\<close>

theorem delete_without_auth:
  assumes "find (\<lambda>p. p1_id p = i) (papers1 st) = Some p"
  shows "delete_paper_v1 st h (Oid i) =
           (Success1, st\<lparr>papers1 := filter (\<lambda>q. p1_id q \<noteq> i) (papers1 st)\<rparr>)
       \<and> media1 (snd (delete_paper_v1 st h (Oid i))) = media1 st
       \<and> delete_paper_v1 st h (Oid i) = delete_paper_v1 st Absent (Oid i)"
  using assms by (simp add: delete_paper_v1_def)

theorem delete_without_auth_witness:
  "find (\<lambda>p. p1_id p = 0) (papers1 sample_state1) = Some sample_paper1
   \<and> delete_paper_v1 sample_state1 Absent (Oid 0) = (Success1, sample_state1\<lparr>papers1 := []\<rparr>)
   \<and> media1 (snd (delete_paper_v1 sample_state1 Absent (Oid 0))) = {''unida_papers/file-5000''}"
  using delete_without_auth [OF sample_v1_found, of Absent]
  by (simp add: sample_v1_found) (simp add: sample_state1_def sample_paper1_def)

lemma findById_Some: "findById ps i = Some p \<Longrightarrow> p \<in> set ps \<and> paper_id p = i"
  by (auto simp: findById_def find_Some_iff)

lemma findById_None: "findById ps i = None \<longleftrightarrow> i \<notin> paper_id ` set ps"
  by (auto simp: findById_def find_None_iff)

lemma findById_removeById: "findById (removeById i ps) i = None"
  by (auto simp: findById_None removeById_def)

lemma ids_save_paper: "map paper_id (save_paper p ps) = map paper_id ps"
  by (induction ps) (simp_all add: save_paper_def)

lemma set_ids_save_paper: "paper_id ` set (save_paper p ps) = paper_id ` set ps"
  using ids_save_paper [of p ps] by (metis set_map)

lemma gone_findById: "gone i st \<Longrightarrow> findById (papers st) i = None"
  by (auto simp: gone_def findById_None)

lemma gone_register: "gone i st \<Longrightarrow> gone i (snd (register cfg e st b))"
  by (auto simp: gone_def register_def Let_def split: option.splits)

lemma gone_login: "gone i st \<Longrightarrow> gone i (snd (login cfg e st b))"
  by (simp add: login_state)

lemma gone_persist: "gone i st \<Longrightarrow> gone i (snd (upload_and_persist e st f b))"
  by (auto simp: gone_def upload_and_persist_def new_paper_def Let_def
        split: option.splits upload_outcome.splits)

lemma gone_post_paper: "gone i st \<Longrightarrow> gone i (snd (post_paper cfg e st h f b))"
  by (simp add: post_paper_def gone_persist split: sum.splits option.splits)

lemma gone_delete_paper: "gone i st \<Longrightarrow> gone i (snd (delete_paper cfg e st h pid))"
  by (auto simp: gone_def delete_paper_def Let_def removeById_def
        split: sum.splits id_param.splits option.splits)

lemma gone_append_comment: "gone i st \<Longrightarrow> gone i (snd (append_comment e st u pid txt))"
proof (cases pid)
  case (Oid j)
  assume g: "gone i st"
  show ?thesis
  proof (cases "findById (papers st) j")
    case None
    with g Oid show ?thesis by (simp add: append_comment_def)
  next
    case (Some p)
    have "paper_id ` set (save_paper (push_comment e u txt p) (papers st)) = paper_id ` set (papers st)"
      by (rule set_ids_save_paper)
    then have "\<forall>q\<in>set (save_paper (push_comment e u txt p) (papers st)).
                 paper_id q < next_oid st \<and> paper_id q \<noteq> i"
      using g unfolding gone_def by (metis imageE imageI)
    with g Oid Some show ?thesis
      by (simp add: append_comment_def Let_def gone_def)
  qed
next
  case (NotAnOid s)
  assume "gone i st"
  with NotAnOid show ?thesis by (simp add: append_comment_def)
qed

lemma gone_post_comment: "gone i st \<Longrightarrow> gone i (snd (post_comment cfg e st h pid txt))"
  by (simp add: post_comment_def gone_append_comment split: sum.splits)

lemma gone_post_avatar: "gone i st \<Longrightarrow> gone i (snd (post_avatar cfg e st h f))"
  by (auto simp: gone_def post_avatar_def Let_def
        split: sum.splits option.splits upload_outcome.splits)

lemma gone_post_news: "gone i st \<Longrightarrow> gone i (snd (post_news cfg e st h b))"
  by (auto simp: gone_def post_news_def Let_def split: sum.splits)

lemma gone_delete_news: "gone i st \<Longrightarrow> gone i (snd (delete_news cfg e st h pid))"
  by (auto simp: gone_def delete_news_def split: sum.splits id_param.splits)

lemma gone_post_event: "gone i st \<Longrightarrow> gone i (snd (post_event cfg e st h b))"
  by (auto simp: gone_def post_event_def Let_def split: sum.splits)

lemma gone_delete_event: "gone i st \<Longrightarrow> gone i (snd (delete_event cfg e st h pid))"
  by (auto simp: gone_def delete_event_def split: sum.splits id_param.splits)

lemma gone_step: "gone i st \<Longrightarrow> gone i (snd (step cfg st r))"
proof -
  assume g: "gone i st"
  obtain e req where r: "r = (e, req)" by (cases r)
  show ?thesis
    unfolding r using g
    by (cases req)
       (simp_all add: gone_register gone_login gone_post_paper gone_delete_paper gone_post_comment
          gone_post_avatar gone_post_news gone_delete_news gone_post_event gone_delete_event
          get_papers_def get_news_def get_events_def)
qed

lemma gone_run: "gone i st \<Longrightarrow> gone i (run cfg st rs)"
  by (induction rs arbitrary: st) (simp_all add: gone_step)

text \<open>Freshness of the stored ids holds in every state reached from the empty database.\<close>

lemma ids_fresh_register: "ids_fresh st \<Longrightarrow> ids_fresh (snd (register cfg e st b))"
  by (auto simp: ids_fresh_def register_def Let_def less_Suc_eq split: option.splits)

lemma ids_fresh_persist: "ids_fresh st \<Longrightarrow> ids_fresh (snd (upload_and_persist e st f b))"
  by (auto simp: ids_fresh_def upload_and_persist_def new_paper_def Let_def less_Suc_eq
        split: option.splits upload_outcome.splits)

lemma ids_fresh_post_paper: "ids_fresh st \<Longrightarrow> ids_fresh (snd (post_paper cfg e st h f b))"
  by (simp add: post_paper_def ids_fresh_persist split: sum.splits option.splits)

lemma ids_fresh_delete_paper: "ids_fresh st \<Longrightarrow> ids_fresh (snd (delete_paper cfg e st h pid))"
  by (auto simp: ids_fresh_def delete_paper_def Let_def removeById_def
        split: sum.splits id_param.splits option.splits)

lemma ids_fresh_append_comment:
  "ids_fresh st \<Longrightarrow> ids_fresh (snd (append_comment e st u pid txt))"
proof (cases pid)
  case (Oid j)
  assume g: "ids_fresh st"
  show ?thesis
  proof (cases "findById (papers st) j")
    case None
    with g Oid show ?thesis by (simp add: append_comment_def)
  next
    case (Some p)
    have "paper_id ` set (save_paper (push_comment e u txt p) (papers st)) = paper_id ` set (papers st)"
      by (rule set_ids_save_paper)
    then have "\<forall>q\<in>set (save_paper (push_comment e u txt p) (papers st)). paper_id q < next_oid st"
      using g unfolding ids_fresh_def by (metis imageE imageI)
    with Oid Some show ?thesis
      by (simp add: append_comment_def Let_def ids_fresh_def)
  qed
next
  case (NotAnOid s)
  assume "ids_fresh st"
  with NotAnOid show ?thesis by (simp add: append_comment_def)
qed

lemma ids_fresh_post_comment:
  "ids_fresh st \<Longrightarrow> ids_fresh (snd (post_comment cfg e st h pid txt))"
  by (simp add: post_comment_def ids_fresh_append_comment split: sum.splits)

lemma ids_fresh_post_avatar: "ids_fresh st \<Longrightarrow> ids_fresh (snd (post_avatar cfg e st h f))"
  by (auto simp: ids_fresh_def post_avatar_def Let_def
        split: sum.splits option.splits upload_outcome.splits)

lemma ids_fresh_post_news: "ids_fresh st \<Longrightarrow> ids_fresh (snd (post_news cfg e st h b))"
  by (auto simp: ids_fresh_def post_news_def Let_def less_Suc_eq split: sum.splits)

lemma ids_fresh_delete_news: "ids_fresh st \<Longrightarrow> ids_fresh (snd (delete_news cfg e st h pid))"
  by (auto simp: ids_fresh_def delete_news_def split: sum.splits id_param.splits)

lemma ids_fresh_post_event: "ids_fresh st \<Longrightarrow> ids_fresh (snd (post_event cfg e st h b))"
  by (auto simp: ids_fresh_def post_event_def Let_def less_Suc_eq split: sum.splits)

lemma ids_fresh_delete_event: "ids_fresh st \<Longrightarrow> ids_fresh (snd (delete_event cfg e st h pid))"
  by (auto simp: ids_fresh_def delete_event_def split: sum.splits id_param.splits)

lemma ids_fresh_step: "ids_fresh st \<Longrightarrow> ids_fresh (snd (step cfg st r))"
proof -
  assume g: "ids_fresh st"
  obtain e req where r: "r = (e, req)" by (cases r)
  show ?thesis
    unfolding r using g
    by (cases req)
       (simp_all add: ids_fresh_register login_state ids_fresh_post_paper ids_fresh_delete_paper
          ids_fresh_post_comment ids_fresh_post_avatar ids_fresh_post_news ids_fresh_delete_news
          ids_fresh_post_event ids_fresh_delete_event get_papers_def get_news_def get_events_def)
qed

lemma ids_fresh_reachable: "ids_fresh (run cfg init rs)"
proof -
  have "ids_fresh st \<Longrightarrow> ids_fresh (run cfg st rs)" for st
    by (induction rs arbitrary: st) (simp_all add: ids_fresh_step)
  moreover have "ids_fresh init"
    by (simp add: ids_fresh_def init_def)
  ultimately show ?thesis .
qed

text \<open>
  C4, as amended. A delete request on a stored paper by its author is answered
  \<^verbatim>\<open>{ok: true}\<close> and removes the record, so a lookup of the id finds nothing, right after
  and, in a state whose ids are fresh (as every reachable state is), after any further
  requests: ids are never reused. The stored object named by the paper's handle is gone
  when the media host's \<^verbatim>\<open>destroy\<close> call returns.
\<close>

theorem delete_by_author:
  assumes found: "findById (papers st) i = Some p"
    and auth: "authMiddleware cfg e h = Inr u"
    and is_author: "tok_name u = author p"
  shows "fst (delete_paper cfg e st h (Oid i)) = OkTrue
       \<and> papers (snd (delete_paper cfg e st h (Oid i))) = removeById i (papers st)
       \<and> findById (papers (snd (delete_paper cfg e st h (Oid i)))) i = None
       \<and> (\<not> destroy_throws e \<longrightarrow>
            (\<forall>public_id. cloudinary_public_id p = Some public_id \<longrightarrow> public_id \<noteq> [] \<longrightarrow>
               public_id \<notin> media (snd (delete_paper cfg e st h (Oid i)))))
       \<and> (ids_fresh st \<longrightarrow>
            (\<forall>rs. findById (papers (run cfg (snd (delete_paper cfg e st h (Oid i))) rs)) i = None))"
proof -
  define m where "m = (case cloudinary_public_id p of
                         None \<Rightarrow> media st
                       | Some public_id \<Rightarrow>
                           if public_id = [] then media st else destroy e public_id (media st))"
  have del: "delete_paper cfg e st h (Oid i) = (OkTrue, st\<lparr>media := m, papers := removeById i (papers st)\<rparr>)"
    using found auth is_author by (simp add: delete_paper_def m_def)
  have obj: "\<not> destroy_throws e \<longrightarrow>
            (\<forall>public_id. cloudinary_public_id p = Some public_id \<longrightarrow> public_id \<noteq> [] \<longrightarrow>
               public_id \<notin> m)"
    by (simp add: m_def destroy_def)
  have later: "\<forall>rs. findById (papers (run cfg (st\<lparr>media := m, papers := removeById i (papers st)\<rparr>) rs)) i = None"
    if fresh: "ids_fresh st"
  proof -
    from found have "p \<in> set (papers st)" "paper_id p = i"
      by (simp_all add: findById_Some)
    with fresh have "i < next_oid st"
      by (auto simp: ids_fresh_def)
    with fresh have "gone i (st\<lparr>media := m, papers := removeById i (papers st)\<rparr>)"
      by (auto simp: gone_def ids_fresh_def removeById_def)
    then show ?thesis
      by (simp add: gone_run gone_findById)
  qed
  from del obj later show ?thesis
    by (simp add: findById_removeById)
qed


lemma alice_token_failing_destroy:
  "authMiddleware sample_config failing_destroy (Bearer (generateToken sample_config 5000 alice)) =
     Inr \<lparr>tok_id = 0, tok_email = Some ''a@x.com'', tok_name = Some ''Al'', tok_isAdmin = False,
          iat = 5, exp_at = 2592005\<rparr>"
  by (simp add: authMiddleware_def jwt_verify_generateToken alice_def sample_env_def
        failing_destroy_def)

lemma sample_paper_handle: "cloudinary_public_id sample_paper = Some ''unida/a''"
  by (simp add: sample_paper_def new_paper_def)

lemma sample_state_fresh: "ids_fresh sample_state"
  by (simp add: ids_fresh_def sample_state_def sample_paper_def new_paper_def init_def)

theorem delete_by_author_witness:
  "findById (papers sample_state) 0 = Some sample_paper
   \<and> Some ''Al'' = author sample_paper
   \<and> \<not> destroy_throws sample_env
   \<and> ids_fresh sample_state
   \<and> fst (delete_paper sample_config sample_env sample_state
        (Bearer (generateToken sample_config 5000 alice)) (Oid 0)) = OkTrue
   \<and> ''unida/a'' \<notin> media (snd (delete_paper sample_config sample_env sample_state
        (Bearer (generateToken sample_config 5000 alice)) (Oid 0)))
   \<and> findById (papers (run sample_config (snd (delete_paper sample_config sample_env sample_state
        (Bearer (generateToken sample_config 5000 alice)) (Oid 0))) [(sample_env, GetPapers)])) 0 = None"
proof -
  have a: "tok_name \<lparr>tok_id = 0, tok_email = Some ''a@x.com'', tok_name = Some ''Al'',
              tok_isAdmin = False, iat = 5, exp_at = 2592005\<rparr> = author sample_paper"
    by (simp add: sample_paper_author)
  have d: "\<not> destroy_throws sample_env"
    by (simp add: sample_env_def)
  from delete_by_author [OF sample_paper_found alice_token_ok a] d sample_state_fresh
    sample_paper_handle
  have r: "fst (delete_paper sample_config sample_env sample_state
             (Bearer (generateToken sample_config 5000 alice)) (Oid 0)) = OkTrue"
    "''unida/a'' \<notin> media (snd (delete_paper sample_config sample_env sample_state
             (Bearer (generateToken sample_config 5000 alice)) (Oid 0)))"
    "\<forall>rs. findById (papers (run sample_config (snd (delete_paper sample_config sample_env
             sample_state (Bearer (generateToken sample_config 5000 alice)) (Oid 0))) rs)) 0 = None"
    by simp_all
  from r(3) have "findById (papers (run sample_config (snd (delete_paper sample_config sample_env
             sample_state (Bearer (generateToken sample_config 5000 alice)) (Oid 0)))
             [(sample_env, GetPapers)])) 0 = None"
    by (rule spec)
  with r(1,2) d sample_state_fresh sample_paper_found sample_paper_author
  show ?thesis by simp
qed

text \<open>
  When \<^verbatim>\<open>destroy\<close> throws, the handler logs a warning and removes the record all the
  same: the object stays on the media host.
\<close>

theorem delete_keeps_object_counterexample:
  "findById (papers sample_state) 0 = Some sample_paper
   \<and> author sample_paper = Some ''Al''
   \<and> cloudinary_public_id sample_paper = Some ''unida/a''
   \<and> delete_paper sample_config failing_destroy sample_state
        (Bearer (generateToken sample_config 5000 alice)) (Oid 0)
       = (OkTrue, sample_state\<lparr>papers := []\<rparr>)
   \<and> ''unida/a'' \<in> media (sample_state\<lparr>papers := []\<rparr>)"
proof -
  have "removeById 0 (papers sample_state) = []"
    by (simp add: removeById_def sample_state_def sample_paper_def new_paper_def init_def)
  moreover have "destroy failing_destroy ''unida/a'' (media sample_state) = media sample_state"
    by (simp add: destroy_def failing_destroy_def)
  moreover have "''unida/a'' \<in> media sample_state"
    by (simp add: sample_state_def)
  ultimately show ?thesis
    by (simp add: delete_paper_def alice_token_failing_destroy sample_paper_found
          sample_paper_author sample_paper_handle)
qed

section \<open>Comments\<close>

lemma append_comment_missing:
  "matches_no_paper st pid \<Longrightarrow>
     append_comment e st u pid s =
       (case pid of Oid i \<Rightarrow> Err 404 ''Not found'' | NotAnOid x \<Rightarrow> Err 500 ''Server error'', st)"
  by (cases pid) (simp_all add: append_comment_def matches_no_paper_def)

text \<open>
  C6, as amended. A comment request whose id matches no stored paper leaves the state as
  it was, in \<^verbatim>\<open>part_000\<close> and in \<^verbatim>\<open>part_002\<close>; when its token is accepted, its text passes
  the route's check (\<^verbatim>\<open>part_000\<close>: the length check, on every place of the request that
  holds a \<^verbatim>\<open>text\<close>; \<^verbatim>\<open>part_002\<close>: the body's text is not empty) and its id is an ObjectId,
  the answer is 404 \<^verbatim>\<open>Not found\<close>.
\<close>

theorem comment_on_missing_paper:
  assumes "matches_no_paper st pid"
  shows "snd (post_comment cfg e st h pid txt) = st
       \<and> snd (post_comment_v2 cfg e st h pid txt) = st
       \<and> (\<forall>u i. authMiddleware cfg e h = Inr u \<longrightarrow> pid = Oid i \<longrightarrow>
              (check e ''text'' txt (isLength cfg 1) \<longrightarrow>
                 fst (post_comment cfg e st h pid txt) = Err 404 ''Not found'')
            \<and> (toString txt \<noteq> [] \<longrightarrow>
                 fst (post_comment_v2 cfg e st h pid txt) = Err 404 ''Not found''))"
proof (cases "authMiddleware cfg e h")
  case (Inl r)
  then show ?thesis
    by (simp add: post_comment_def post_comment_v2_def)
next
  case (Inr u)
  note app = append_comment_missing [OF assms, of e u "txt"]
  show ?thesis
  proof (cases pid)
    case (Oid i)
    with Inr app show ?thesis
      by (simp add: post_comment_def post_comment_v2_def)
  next
    case (NotAnOid x)
    with Inr app show ?thesis
      by (simp add: post_comment_def post_comment_v2_def)
  qed
qed

lemma no_paper_7: "matches_no_paper init (Oid 7)"
  by (simp add: matches_no_paper_def findById_def init_def)

lemma sample_text_valid:
  "check sample_env ''text'' (Some ''hi'') (isLength sample_config 1)"
  "check sample_env ''text'' (Some ''hi'') (isLength sample_config (Suc 0))"
  by (simp_all add: check_def located_def sample_env_def sample_config_def code_points_def)

theorem comment_on_missing_paper_witness:
  "matches_no_paper init (Oid 7)
   \<and> check sample_env ''text'' (Some ''hi'') (isLength sample_config 1)
   \<and> post_comment sample_config sample_env init
        (Bearer (generateToken sample_config 5000 alice)) (Oid 7) (Some ''hi'')
       = (Err 404 ''Not found'', init)
   \<and> post_comment_v2 sample_config sample_env init
        (Bearer (generateToken sample_config 5000 alice)) (Oid 7) (Some ''hi'')
       = (Err 404 ''Not found'', init)"
  using comment_on_missing_paper [OF no_paper_7, of sample_config sample_env
      "Bearer (generateToken sample_config 5000 alice)" "Some ''hi''"]
  by (simp add: no_paper_7 sample_text_valid alice_token_ok toString_def prod_eq_iff)

text \<open>
  Without a token the answer is 401, with an empty text 400, with an empty \<^verbatim>\<open>text\<close> in the
  query string beside a text in the body 400, and with an id that is not an ObjectId 500:
  each check comes before the 404.
\<close>

theorem comment_unauthenticated_counterexample:
  "matches_no_paper init (Oid 7)
   \<and> post_comment sample_config sample_env init Absent (Oid 7) (Some ''hi'')
       = (Err 401 ''Unauthorized'', init)
   \<and> post_comment sample_config sample_env init
        (Bearer (generateToken sample_config 5000 alice)) (Oid 7) (Some [])
       = (Err 400 ''Validation error'', init)
   \<and> post_comment sample_config empty_text_in_query init
        (Bearer (generateToken sample_config 5000 alice)) (Oid 7) (Some ''hi'')
       = (Err 400 ''Validation error'', init)
   \<and> matches_no_paper init (NotAnOid ''abc'')
   \<and> post_comment sample_config sample_env init
        (Bearer (generateToken sample_config 5000 alice)) (NotAnOid ''abc'') (Some ''hi'')
       = (Err 500 ''Server error'', init)"
proof -
  have q: "authMiddleware sample_config empty_text_in_query
             (Bearer (generateToken sample_config 5000 alice)) =
           authMiddleware sample_config sample_env (Bearer (generateToken sample_config 5000 alice))"
    by (simp add: authMiddleware_def empty_text_in_query_def)
  have c: "\<not> check sample_env ''text'' (Some []) (isLength sample_config 1)"
    "\<not> check empty_text_in_query ''text'' (Some ''hi'') (isLength sample_config 1)"
    by (simp_all add: check_def located_def sample_env_def empty_text_in_query_def
          sample_config_def code_points_def)
  have m: "matches_no_paper init (NotAnOid ''abc'')"
    by (simp add: matches_no_paper_def)
  have a: "append_comment sample_env init u (NotAnOid ''abc'') t = (Err 500 ''Server error'', init)"
    for u t
    by (simp add: append_comment_def)
  have u: "authMiddleware sample_config sample_env Absent = Inl (Err 401 ''Unauthorized'')"
    by (simp add: authMiddleware_def)
  from q c m a u show ?thesis
    by (simp add: no_paper_7 post_comment_def alice_token_ok sample_text_valid)
qed

section \<open>Listing\<close>

lemma serve_appends:
  assumes h: "\<And>q st r st1. handler q st = (r, st1) \<Longrightarrow> item r \<noteq> None \<Longrightarrow>
                 coll st1 = coll st @ [the (item r)]"
  shows "serve handler st qs = (rs, st') \<Longrightarrow> \<forall>r\<in>set rs. item r \<noteq> None \<Longrightarrow>
           coll st' = coll st @ map (\<lambda>r. the (item r)) rs \<and> length rs = length qs"
proof (induction qs arbitrary: st rs st')
  case Nil
  then show ?case by simp
next
  case (Cons q qs)
  obtain r st1 where a: "handler q st = (r, st1)" by (cases "handler q st")
  obtain rs1 st2 where b: "serve handler st1 qs = (rs1, st2)" by (cases "serve handler st1 qs")
  from Cons.prems(1) a b have rs: "rs = r # rs1" and st': "st' = st2"
    by simp_all
  from Cons.prems(2) rs have ok: "item r \<noteq> None" "\<forall>x\<in>set rs1. item x \<noteq> None"
    by simp_all
  from h [OF a ok(1)] have c: "coll st1 = coll st @ [the (item r)]" .
  from Cons.IH [OF b ok(2)] have "coll st2 = coll st1 @ map (\<lambda>r. the (item r)) rs1"
    "length rs1 = length qs"
    by simp_all
  with c rs st' show ?case by simp
qed

lemma persist_appends:
  "upload_and_persist e st f b = (r, st1) \<Longrightarrow> paper_of r \<noteq> None \<Longrightarrow>
     papers st1 = papers st @ [the (paper_of r)]"
  by (auto simp: upload_and_persist_def paper_of_def Let_def
        split: option.splits upload_outcome.splits)

lemma authMiddleware_no_paper: "authMiddleware cfg e h = Inl r \<Longrightarrow> paper_of r = None"
  by (auto simp: authMiddleware_def paper_of_def split: header.splits option.splits)

lemma uploadLimiter_no_paper: "uploadLimiter e = Some r \<Longrightarrow> paper_of r = None"
  by (auto simp: uploadLimiter_def rateLimit_def paper_of_def split: if_splits)

lemma errorHandler_no_paper: "paper_of (errorHandler msg) = None"
  by (simp add: errorHandler_def paper_of_def)

lemma paper_of_Err: "paper_of (Err code msg) = None"
  by (simp add: paper_of_def)

lemma create_appends:
  "create cfg q st = (r, st1) \<Longrightarrow> paper_of r \<noteq> None \<Longrightarrow>
     papers st1 = papers st @ [the (paper_of r)]"
  by (auto simp: create_def post_paper_def persist_appends errorHandler_no_paper paper_of_Err
        dest: authMiddleware_no_paper uploadLimiter_no_paper
        split: sum.splits if_splits prod.splits option.splits)

lemma create_v2_appends:
  "create_v2 cfg q st = (r, st1) \<Longrightarrow> paper_of r \<noteq> None \<Longrightarrow>
     papers st1 = papers st @ [the (paper_of r)]"
  by (auto simp: create_v2_def post_paper_v2_def persist_appends paper_of_Err
        dest: authMiddleware_no_paper split: sum.splits if_splits prod.splits)

lemma create_v1_appends:
  "create_v1 q st = (r, st1) \<Longrightarrow> paper1_of r \<noteq> None \<Longrightarrow>
     papers1 st1 = papers1 st @ [the (paper1_of r)]"
  by (auto simp: create_v1_def post_paper_v1_def paper1_of_def Let_def
        split: option.splits if_splits prod.splits upload_outcome.splits)

lemma sort_desc_sorted: "sorted_wrt (\<lambda>x y. key y \<le> key x) (sort_desc key xs)"
proof -
  have "sorted (map key (sort_key key xs))"
    by (rule sorted_sort_key)
  then have "sorted_wrt (\<lambda>x y. key x \<le> key y) (sort_key key xs)"
    by (simp add: sorted_map)
  then show ?thesis
    by (simp add: sort_desc_def sorted_wrt_rev)
qed

lemma sort_desc_length: "length (sort_desc key xs) = length xs"
  by (simp add: sort_desc_def)

lemma sort_desc_set: "set (sort_desc key xs) = set xs"
  by (simp add: sort_desc_def)


lemma created_set:
  "list_all (\<lambda>r. paper_of r \<noteq> None) rs \<Longrightarrow>
     set (map (\<lambda>r. the (paper_of r)) rs) = {p. PaperJson p \<in> set rs}"
  by (induction rs) (auto simp: paper_of_def split: response.splits)

lemma created1_set:
  "list_all (\<lambda>r. paper1_of r \<noteq> None) rs \<Longrightarrow>
     set (map (\<lambda>r. the (paper1_of r)) rs) = {p. Created1 p \<in> set rs}"
  by (induction rs) (auto simp: paper1_of_def split: response1.splits)

lemma listing_after:
  assumes h: "\<And>q st r st1. handler q st = (r, st1) \<Longrightarrow> paper_of r \<noteq> None \<Longrightarrow>
                 papers st1 = papers st @ [the (paper_of r)]"
    and empty: "papers st = []"
    and run: "serve handler st qs = (rs, st')"
    and ok: "list_all (\<lambda>r. paper_of r \<noteq> None) rs"
  shows "\<exists>ps. fst (get_papers st') = PaperList ps \<and> length ps = length qs
              \<and> sorted_wrt (\<lambda>p q. date q \<le> date p) ps
              \<and> set ps = {p. PaperJson p \<in> set rs}"
proof -
  from ok have all: "\<forall>r\<in>set rs. paper_of r \<noteq> None"
    by (simp add: list_all_iff)
  from serve_appends [of handler paper_of papers, OF h run all] empty
  have stored: "papers st' = map (\<lambda>r. the (paper_of r)) rs" and n: "length rs = length qs"
    by simp_all
  have "fst (get_papers st') = PaperList (sort_desc date (papers st'))"
    by (simp add: get_papers_def)
  moreover have "length (sort_desc date (papers st')) = length qs"
    by (simp add: sort_desc_length stored n)
  moreover have "sorted_wrt (\<lambda>p q. date q \<le> date p) (sort_desc date (papers st'))"
    by (rule sort_desc_sorted)
  moreover have "set (sort_desc date (papers st')) = {p. PaperJson p \<in> set rs}"
    using created_set [OF ok] by (simp add: sort_desc_set stored)
  ultimately show ?thesis by blast
qed

lemma listing_after_v1:
  assumes empty: "papers1 st = []"
    and run: "serve create_v1 st qs = (rs, st')"
    and ok: "list_all (\<lambda>r. paper1_of r \<noteq> None) rs"
  shows "\<exists>ps. fst (get_papers_v1 st') = Papers1 ps \<and> length ps = length qs
              \<and> sorted_wrt (\<lambda>p q. p1_id q \<le> p1_id p) ps
              \<and> set ps = {p. Created1 p \<in> set rs}"
proof -
  from ok have all: "\<forall>r\<in>set rs. paper1_of r \<noteq> None"
    by (simp add: list_all_iff)
  from serve_appends [of create_v1 paper1_of papers1, OF create_v1_appends run all] empty
  have stored: "papers1 st' = map (\<lambda>r. the (paper1_of r)) rs" and n: "length rs = length qs"
    by simp_all
  have "fst (get_papers_v1 st') = Papers1 (sort_desc p1_id (papers1 st'))"
    by (simp add: get_papers_v1_def)
  moreover have "length (sort_desc p1_id (papers1 st')) = length qs"
    by (simp add: sort_desc_length stored n)
  moreover have "sorted_wrt (\<lambda>p q. p1_id q \<le> p1_id p) (sort_desc p1_id (papers1 st'))"
    by (rule sort_desc_sorted)
  moreover have "set (sort_desc p1_id (papers1 st')) = {p. Created1 p \<in> set rs}"
    using created1_set [OF ok] by (simp add: sort_desc_set stored)
  ultimately show ?thesis by blast
qed

text \<open>
  C5. After N paper uploads that all succeed on a server with no papers, the listing
  shows exactly N records, the ones the uploads were answered with, by descending
  creation marker: \<^verbatim>\<open>date\<close> on the extended server and on \<^verbatim>\<open>part_002\<close>, \<^verbatim>\<open>_id\<close> on the
  server without auth.
\<close>

theorem list_after_creates:
  "(papers st = [] \<longrightarrow> serve (create cfg) st qs = (rs, st') \<longrightarrow>
      list_all (\<lambda>r. paper_of r \<noteq> None) rs \<longrightarrow>
      (\<exists>ps. fst (get_papers st') = PaperList ps \<and> length ps = length qs
           \<and> sorted_wrt (\<lambda>p q. date q \<le> date p) ps
           \<and> set ps = {p. PaperJson p \<in> set rs}))
   \<and> (papers st = [] \<longrightarrow> serve (create_v2 cfg) st qs = (rs, st') \<longrightarrow>
      list_all (\<lambda>r. paper_of r \<noteq> None) rs \<longrightarrow>
      (\<exists>ps. fst (get_papers st') = PaperList ps \<and> length ps = length qs
           \<and> sorted_wrt (\<lambda>p q. date q \<le> date p) ps
           \<and> set ps = {p. PaperJson p \<in> set rs}))
   \<and> (papers1 s = [] \<longrightarrow> serve create_v1 s qs1 = (rs1, s') \<longrightarrow>
      list_all (\<lambda>r. paper1_of r \<noteq> None) rs1 \<longrightarrow>
      (\<exists>ps. fst (get_papers_v1 s') = Papers1 ps \<and> length ps = length qs1
           \<and> sorted_wrt (\<lambda>p q. p1_id q \<le> p1_id p) ps
           \<and> set ps = {p. Created1 p \<in> set rs1}))"
proof -
  have a: "\<exists>ps. fst (get_papers st') = PaperList ps \<and> length ps = length qs
              \<and> sorted_wrt (\<lambda>p q. date q \<le> date p) ps
              \<and> set ps = {p. PaperJson p \<in> set rs}"
    if "papers st = []" "serve (create cfg) st qs = (rs, st')"
      "list_all (\<lambda>r. paper_of r \<noteq> None) rs"
    using create_appends that by (rule listing_after)
  have b: "\<exists>ps. fst (get_papers st') = PaperList ps \<and> length ps = length qs
              \<and> sorted_wrt (\<lambda>p q. date q \<le> date p) ps
              \<and> set ps = {p. PaperJson p \<in> set rs}"
    if "papers st = []" "serve (create_v2 cfg) st qs = (rs, st')"
      "list_all (\<lambda>r. paper_of r \<noteq> None) rs"
    using create_v2_appends that by (rule listing_after)
  have c: "\<exists>ps. fst (get_papers_v1 s') = Papers1 ps \<and> length ps = length qs1
              \<and> sorted_wrt (\<lambda>p q. p1_id q \<le> p1_id p) ps
              \<and> set ps = {p. Created1 p \<in> set rs1}"
    if "papers1 s = []" "serve create_v1 s qs1 = (rs1, s')"
      "list_all (\<lambda>r. paper1_of r \<noteq> None) rs1"
    using that by (rule listing_after_v1)
  from a b c show ?thesis by blast
qed


lemma alice_token_later:
  "authMiddleware sample_config later_env (Bearer (generateToken sample_config 5000 alice)) =
     Inr \<lparr>tok_id = 0, tok_email = Some ''a@x.com'', tok_name = Some ''Al'', tok_isAdmin = False,
          iat = 5, exp_at = 2592005\<rparr>"
  by (simp add: authMiddleware_def jwt_verify_generateToken alice_def later_env_def)

lemma uploadPDF_pdf_file: "uploadPDF (Some pdf_file) = Inr (Some pdf_file)"
  by (simp add: uploadPDF_def multer_single_def pdf_file_def)

lemma upload_v2_pdf_file: "upload_v2 (Some pdf_file) = Inr (Some pdf_file)"
  by (simp add: upload_v2_def multer_single_def pdf_file_def)

lemma sample_body_valid:
  "valid_paper sample_config sample_env sample_body" "valid_paper sample_config later_env sample_body"
  by (simp_all add: valid_paper_def check_def located_def sample_env_def later_env_def
        sample_body_def sample_config_def code_points_def)

lemma persist_second:
  "upload_and_persist later_env sample_state (Some f) sample_body =
     (PaperJson second_paper,
      sample_state\<lparr>papers := [sample_paper, second_paper],
                    media := {''unida/b'', ''unida/a''}, next_oid := 2\<rparr>)"
  by (simp add: upload_and_persist_def later_env_def second_paper_def sample_state_def init_def
        new_paper_def Let_def)

lemma serve_two_uploads:
  "serve (create sample_config) init two_uploads =
     ([PaperJson sample_paper, PaperJson second_paper],
      sample_state\<lparr>papers := [sample_paper, second_paper],
                    media := {''unida/b'', ''unida/a''}, next_oid := 2\<rparr>)"
  by (simp add: two_uploads_def create_def post_paper_def alice_token_ok alice_token_later
        sample_uploadLimiter uploadPDF_pdf_file sample_body_valid persist_sample persist_second)

lemma serve_two_uploads_v2:
  "serve (create_v2 sample_config) init two_uploads =
     ([PaperJson sample_paper, PaperJson second_paper],
      sample_state\<lparr>papers := [sample_paper, second_paper],
                    media := {''unida/b'', ''unida/a''}, next_oid := 2\<rparr>)"
  by (simp add: two_uploads_def create_v2_def post_paper_v2_def alice_token_ok alice_token_later
        upload_v2_pdf_file persist_sample persist_second)

lemma serve_two_uploads_v1:
  "serve create_v1 init1 two_uploads_v1 =
     ([Created1 first_paper1, Created1 second_paper1],
      \<lparr>papers1 = [first_paper1, second_paper1], media1 = {''unida/b'', ''unida/a''},
       next_oid1 = 2\<rparr>)"
  by (simp add: two_uploads_v1_def create_v1_def post_paper_v1_def pdf_file_def sample_env_def
        later_env_def init1_def first_paper1_def second_paper1_def sample_paper1_def
        sample_body_def Let_def)

lemma dates: "date sample_paper = 5000" "date second_paper = 9000"
  by (simp_all add: sample_paper_def second_paper_def new_paper_def sample_env_def later_env_def)

theorem list_after_creates_witness:
  "papers init = []
   \<and> serve (create sample_config) init two_uploads =
       ([PaperJson sample_paper, PaperJson second_paper],
        sample_state\<lparr>papers := [sample_paper, second_paper],
                      media := {''unida/b'', ''unida/a''}, next_oid := 2\<rparr>)
   \<and> list_all (\<lambda>r. paper_of r \<noteq> None) [PaperJson sample_paper, PaperJson second_paper]
   \<and> serve (create_v2 sample_config) init two_uploads =
       ([PaperJson sample_paper, PaperJson second_paper],
        sample_state\<lparr>papers := [sample_paper, second_paper],
                      media := {''unida/b'', ''unida/a''}, next_oid := 2\<rparr>)
   \<and> papers1 init1 = []
   \<and> serve create_v1 init1 two_uploads_v1 =
       ([Created1 first_paper1, Created1 second_paper1],
        \<lparr>papers1 = [first_paper1, second_paper1], media1 = {''unida/b'', ''unida/a''},
         next_oid1 = 2\<rparr>)
   \<and> list_all (\<lambda>r. paper1_of r \<noteq> None) [Created1 first_paper1, Created1 second_paper1]
   \<and> (\<exists>ps. fst (get_papers (sample_state\<lparr>papers := [sample_paper, second_paper],
                      media := {''unida/b'', ''unida/a''}, next_oid := 2\<rparr>)) = PaperList ps
          \<and> length ps = length two_uploads
          \<and> sorted_wrt (\<lambda>p q. date q \<le> date p) ps
          \<and> set ps = {p. PaperJson p \<in> set [PaperJson sample_paper, PaperJson second_paper]})
   \<and> (\<exists>ps. fst (get_papers_v1 \<lparr>papers1 = [first_paper1, second_paper1],
                      media1 = {''unida/b'', ''unida/a''}, next_oid1 = 2\<rparr>) = Papers1 ps
          \<and> length ps = length two_uploads_v1
          \<and> sorted_wrt (\<lambda>p q. p1_id q \<le> p1_id p) ps
          \<and> set ps = {p. Created1 p \<in> set [Created1 first_paper1, Created1 second_paper1]})
   \<and> fst (get_papers (sample_state\<lparr>papers := [sample_paper, second_paper],
                      media := {''unida/b'', ''unida/a''}, next_oid := 2\<rparr>))
        = PaperList [second_paper, sample_paper]"
proof -
  have e: "papers init = []" "papers1 init1 = []"
    by (simp_all add: init_def init1_def)
  have ok: "list_all (\<lambda>r. paper_of r \<noteq> None) [PaperJson sample_paper, PaperJson second_paper]"
    "list_all (\<lambda>r. paper1_of r \<noteq> None) [Created1 first_paper1, Created1 second_paper1]"
    by (simp_all add: paper_of_def paper1_of_def)
  have l: "fst (get_papers (sample_state\<lparr>papers := [sample_paper, second_paper],
                      media := {''unida/b'', ''unida/a''}, next_oid := 2\<rparr>))
        = PaperList [second_paper, sample_paper]"
    by (simp add: get_papers_def sort_desc_def dates)
  from list_after_creates [of init sample_config two_uploads
      "[PaperJson sample_paper, PaperJson second_paper]"
      "sample_state\<lparr>papers := [sample_paper, second_paper],
                    media := {''unida/b'', ''unida/a''}, next_oid := 2\<rparr>"
      init1 two_uploads_v1 "[Created1 first_paper1, Created1 second_paper1]"
      "\<lparr>papers1 = [first_paper1, second_paper1], media1 = {''unida/b'', ''unida/a''},
       next_oid1 = 2\<rparr>"]
    e ok serve_two_uploads serve_two_uploads_v2 serve_two_uploads_v1 l
  show ?thesis by blast
qed

section \<open>Unique emails\<close>

lemma users_ok_bump: "users_ok st \<Longrightarrow> users_ok (st\<lparr>next_oid := Suc (next_oid st)\<rparr>)"
  by (auto simp: users_ok_def less_Suc_eq)

lemma findOne_email_first: "findOne_email us None = None \<longleftrightarrow> us = []"
  by (simp add: findOne_email_def split: list.split)

lemma users_ok_register: "users_ok st \<Longrightarrow> users_ok (snd (register cfg e st b))"
  by (auto simp: users_ok_def register_def insert_user_def Let_def less_Suc_eq
        findOne_email_first split: option.splits if_splits)

lemma users_ok_persist: "users_ok st \<Longrightarrow> users_ok (snd (upload_and_persist e st f b))"
  by (auto simp: users_ok_def upload_and_persist_def Let_def less_Suc_eq
        split: option.splits upload_outcome.splits)

lemma users_ok_post_paper: "users_ok st \<Longrightarrow> users_ok (snd (post_paper cfg e st h f b))"
  by (simp add: post_paper_def users_ok_persist split: sum.splits option.splits)

lemma users_ok_delete_paper: "users_ok st \<Longrightarrow> users_ok (snd (delete_paper cfg e st h pid))"
  by (auto simp: users_ok_def delete_paper_def Let_def
        split: sum.splits id_param.splits option.splits)

lemma users_ok_append_comment: "users_ok st \<Longrightarrow> users_ok (snd (append_comment e st u pid txt))"
  by (auto simp: users_ok_def append_comment_def Let_def split: id_param.splits option.splits)

lemma users_ok_post_comment: "users_ok st \<Longrightarrow> users_ok (snd (post_comment cfg e st h pid txt))"
  by (simp add: post_comment_def users_ok_append_comment split: sum.splits)

lemma findUserById_Some: "findUserById us i = Some x \<Longrightarrow> x \<in> set us \<and> user_id x = i"
  by (auto simp: findUserById_def find_Some_iff)

lemma save_user_same:
  assumes d: "distinct (map user_id us)" and x: "x \<in> set us"
    and e: "email y = email x" and i: "user_id y = user_id x"
  shows "map email (save_user y us) = map email us \<and> map user_id (save_user y us) = map user_id us"
proof -
  have inj: "inj_on user_id (set us)"
    using d by (simp add: distinct_map)
  have "v = x" if "v \<in> set us" "user_id v = user_id y" for v
    using that x i inj by (auto dest: inj_onD)
  then have "\<forall>v\<in>set us. email (if user_id v = user_id y then y else v) = email v
                        \<and> user_id (if user_id v = user_id y then y else v) = user_id v"
    using e by auto
  then show ?thesis
    by (simp add: save_user_def)
qed

lemma users_ok_post_avatar: "users_ok st \<Longrightarrow> users_ok (snd (post_avatar cfg e st h f))"
proof -
  assume ok: "users_ok st"
  have upd: "users_ok (st\<lparr>media := m, users := save_user (x\<lparr>avatar := a\<rparr>) (users st)\<rparr>)"
    if "findUserById (users st) i = Some x" for m x a i
  proof -
    from that have "x \<in> set (users st)" by (simp add: findUserById_Some)
    with ok have "map email (save_user (x\<lparr>avatar := a\<rparr>) (users st)) = map email (users st)
        \<and> map user_id (save_user (x\<lparr>avatar := a\<rparr>) (users st)) = map user_id (users st)"
      by (intro save_user_same) (simp_all add: users_ok_def)
    moreover from this have "user_id ` set (save_user (x\<lparr>avatar := a\<rparr>) (users st)) = user_id ` set (users st)"
      by (metis set_map)
    ultimately show ?thesis
      using ok unfolding users_ok_def by (simp add: image_iff) (metis imageI image_iff)
  qed
  have med: "users_ok (st\<lparr>media := m\<rparr>)" for m
    using ok by (simp add: users_ok_def)
  show ?thesis
    using ok upd med
    by (auto simp: post_avatar_def Let_def split: sum.splits option.splits upload_outcome.splits)
qed

lemma users_ok_post_news: "users_ok st \<Longrightarrow> users_ok (snd (post_news cfg e st h b))"
  by (auto simp: users_ok_def post_news_def Let_def less_Suc_eq split: sum.splits)

lemma users_ok_delete_news: "users_ok st \<Longrightarrow> users_ok (snd (delete_news cfg e st h pid))"
  by (auto simp: users_ok_def delete_news_def split: sum.splits id_param.splits)

lemma users_ok_post_event: "users_ok st \<Longrightarrow> users_ok (snd (post_event cfg e st h b))"
  by (auto simp: users_ok_def post_event_def Let_def less_Suc_eq split: sum.splits)

lemma users_ok_delete_event: "users_ok st \<Longrightarrow> users_ok (snd (delete_event cfg e st h pid))"
  by (auto simp: users_ok_def delete_event_def split: sum.splits id_param.splits)

lemma users_ok_step: "users_ok st \<Longrightarrow> users_ok (snd (step cfg st r))"
proof -
  assume ok: "users_ok st"
  obtain e req where r: "r = (e, req)" by (cases r)
  show ?thesis
    unfolding r using ok
    by (cases req)
       (simp_all add: users_ok_register login_state users_ok_post_paper users_ok_delete_paper
          users_ok_post_comment users_ok_post_avatar users_ok_post_news users_ok_delete_news
          users_ok_post_event users_ok_delete_event get_papers_def get_news_def get_events_def)
qed

lemma users_ok_run: "users_ok st \<Longrightarrow> users_ok (run cfg st rs)"
  by (induction rs arbitrary: st) (simp_all add: users_ok_step)

lemma users_ok_init: "users_ok init"
  by (simp add: users_ok_def init_def)

lemma register_duplicate:
  assumes "r_email b = Some em" and "Some em \<in> set (map email (users st))"
  shows "snd (register cfg e st b) = st
       \<and> status (fst (register cfg e st b)) = (if 10 < auth_hits e then 429 else 400)"
proof -
  from assms have "findOne_email (users st) (r_email b) \<noteq> None"
    by (simp add: findOne_email_None)
  then show ?thesis
    by (auto simp: register_def status_def authLimiter_def rateLimit_def)
qed

text \<open>
  C8, as amended. Every request keeps the user collection well formed (unique emails,
  unique ids); so in every state reached from the empty database no two stored users
  share an email. A registration with an email that is already stored returns the state
  it was given, so no user is created, and is answered 400, or 429 when it is over the
  rate limit.
\<close>

theorem email_unique:
  "(users_ok st \<longrightarrow> users_ok (snd (step cfg st r)))
   \<and> distinct (map email (users (run cfg init rs)))
   \<and> (r_email b = Some em \<longrightarrow> Some em \<in> set (map email (users st)) \<longrightarrow>
        snd (register cfg e st b) = st
      \<and> status (fst (register cfg e st b)) = (if 10 < auth_hits e then 429 else 400))"
proof -
  have "users_ok (run cfg init rs)"
    by (rule users_ok_run) (rule users_ok_init)
  then have "distinct (map email (users (run cfg init rs)))"
    by (simp add: users_ok_def)
  then show ?thesis
    using users_ok_step register_duplicate by blast
qed

lemma one_user_ok: "users_ok one_user"
  by (simp add: users_ok_def one_user_def init_def alice_def)

lemma sample_email_stored: "Some ''a@x.com'' \<in> set (map email (users one_user))"
  by (simp add: one_user_def alice_def)

lemma sample_register_email: "r_email sample_register = Some ''a@x.com''"
  by (simp add: sample_register_def)

lemma sample_authLimiter: "authLimiter sample_env = None"
  by (simp add: authLimiter_def rateLimit_def sample_env_def)

lemma register_sample:
  "register sample_config sample_env init sample_register =
     (AuthOk (view alice) (generateToken sample_config 5000 alice), one_user)"
proof -
  have "findOne_email (users init) (r_email sample_register) = None"
    by (simp add: findOne_email_def init_def sample_register_def)
  moreover have "default_avatar (r_name sample_register) =
      Some ''https://ui-avatars.com/api/?name=Al&background=76935C&color=fff''"
    by (simp add: default_avatar_def encodeURIComponent_def unreserved_def sample_register_def)
  moreover have "r_password sample_register = Some ''secret1''"
    by (simp add: sample_register_def)
  ultimately show ?thesis
    by (simp add: register_def sample_authLimiter sample_register_valid)
       (simp add: insert_user_def init_def Let_def alice_def sample_env_def one_user_def
          sample_register_def toString_def)
qed

lemma register_sample_again:
  "register sample_config sample_env one_user sample_register =
     (Err 400 ''Email already registered'', one_user)"
proof -
  have "findOne_email (users one_user) (r_email sample_register) = Some alice"
    by (simp add: findOne_email_def one_user_def sample_register_def alice_def)
  then show ?thesis
    by (simp add: register_def sample_authLimiter sample_register_valid)
qed

theorem email_unique_witness:
  "users_ok one_user
   \<and> users_ok (snd (step sample_config one_user (sample_env, PostRegister sample_register)))
   \<and> r_email sample_register = Some ''a@x.com''
   \<and> Some ''a@x.com'' \<in> set (map email (users one_user))
   \<and> register sample_config sample_env one_user sample_register
       = (Err 400 ''Email already registered'', one_user)
   \<and> status (fst (register sample_config sample_env one_user sample_register)) = 400
   \<and> snd (register sample_config sample_env one_user sample_register) = one_user
   \<and> distinct (map email (users (run sample_config init
         [(sample_env, PostRegister sample_register), (sample_env, PostRegister sample_register)])))"
proof -
  have h: "\<not> 10 < auth_hits sample_env"
    by (simp add: sample_env_def)
  from email_unique [of one_user sample_config "(sample_env, PostRegister sample_register)"
      "[(sample_env, PostRegister sample_register), (sample_env, PostRegister sample_register)]"
      sample_register "''a@x.com''" sample_env]
    one_user_ok sample_register_email sample_email_stored register_sample_again h
  show ?thesis by simp
qed

text \<open>
  The eleventh auth request of a minute, a registration with a stored email, is answered
  429 and not 400.
\<close>

theorem register_limited_counterexample:
  "r_email sample_register = Some ''a@x.com''
   \<and> Some ''a@x.com'' \<in> set (map email (users one_user))
   \<and> register sample_config eleventh one_user sample_register
       = (Err 429 ''Too many auth requests, try again later'', one_user)"
  using sample_email_stored
  by (simp add: sample_register_email register_def authLimiter_def rateLimit_def eleventh_def)

section \<open>No admin\<close>

lemma no_admin_register: "no_admin st \<Longrightarrow> no_admin (snd (register cfg e st b))"
  by (auto simp: no_admin_def register_def insert_user_def Let_def split: option.splits if_splits)

lemma no_admin_persist: "no_admin st \<Longrightarrow> no_admin (snd (upload_and_persist e st f b))"
  by (auto simp: no_admin_def upload_and_persist_def Let_def
        split: option.splits upload_outcome.splits)

lemma no_admin_post_paper: "no_admin st \<Longrightarrow> no_admin (snd (post_paper cfg e st h f b))"
  by (simp add: post_paper_def no_admin_persist split: sum.splits option.splits)

lemma no_admin_delete_paper: "no_admin st \<Longrightarrow> no_admin (snd (delete_paper cfg e st h pid))"
  by (auto simp: no_admin_def delete_paper_def Let_def
        split: sum.splits id_param.splits option.splits)

lemma no_admin_append_comment: "no_admin st \<Longrightarrow> no_admin (snd (append_comment e st u pid txt))"
  by (auto simp: no_admin_def append_comment_def Let_def split: id_param.splits option.splits)

lemma no_admin_post_comment: "no_admin st \<Longrightarrow> no_admin (snd (post_comment cfg e st h pid txt))"
  by (simp add: post_comment_def no_admin_append_comment split: sum.splits)

lemma no_admin_save_user:
  "\<forall>u\<in>set us. \<not> isAdmin u \<Longrightarrow> \<not> isAdmin y \<Longrightarrow> \<forall>u\<in>set (save_user y us). \<not> isAdmin u"
  by (auto simp: save_user_def)

lemma no_admin_post_avatar: "no_admin st \<Longrightarrow> no_admin (snd (post_avatar cfg e st h f))"
  by (auto simp: no_admin_def post_avatar_def Let_def save_user_def
        dest!: findUserById_Some split: sum.splits option.splits upload_outcome.splits)

lemma no_admin_post_news: "no_admin st \<Longrightarrow> no_admin (snd (post_news cfg e st h b))"
  by (auto simp: no_admin_def post_news_def Let_def split: sum.splits)

lemma no_admin_delete_news: "no_admin st \<Longrightarrow> no_admin (snd (delete_news cfg e st h pid))"
  by (auto simp: no_admin_def delete_news_def split: sum.splits id_param.splits)

lemma no_admin_post_event: "no_admin st \<Longrightarrow> no_admin (snd (post_event cfg e st h b))"
  by (auto simp: no_admin_def post_event_def Let_def split: sum.splits)

lemma no_admin_delete_event: "no_admin st \<Longrightarrow> no_admin (snd (delete_event cfg e st h pid))"
  by (auto simp: no_admin_def delete_event_def split: sum.splits id_param.splits)

lemma no_admin_step: "no_admin st \<Longrightarrow> no_admin (snd (step cfg st r))"
proof -
  assume ok: "no_admin st"
  obtain e req where r: "r = (e, req)" by (cases r)
  show ?thesis
    unfolding r using ok
    by (cases req)
       (simp_all add: no_admin_register login_state no_admin_post_paper no_admin_delete_paper
          no_admin_post_comment no_admin_post_avatar no_admin_post_news no_admin_delete_news
          no_admin_post_event no_admin_delete_event get_papers_def get_news_def get_events_def)
qed

lemma no_admin_run: "no_admin st \<Longrightarrow> no_admin (run cfg st rs)"
  by (induction rs arbitrary: st) (simp_all add: no_admin_step)

lemma no_admin_init: "no_admin init"
  by (simp add: no_admin_def init_def)

text \<open>Only register and login answer with a token, and it is the stored user's.\<close>

lemma token_of_AuthOk: "token_of (AuthOk v tok) = Some tok"
  by (simp add: token_of_def)

lemma plain_generateToken: "\<not> isAdmin u \<Longrightarrow> plain_token (generateToken cfg t u)"
  by (simp add: generateToken_eq plain_token_def)

lemma token_of_Err: "token_of (Err code msg) = None"
  by (simp add: token_of_def)

lemma token_authLimiter: "authLimiter e = Some r \<Longrightarrow> token_of r = None"
  by (auto simp: authLimiter_def rateLimit_def token_of_def split: if_splits)

lemma token_uploadLimiter: "uploadLimiter e = Some r \<Longrightarrow> token_of r = None"
  by (auto simp: uploadLimiter_def rateLimit_def token_of_def split: if_splits)

lemma token_register:
  "token_of (fst (register cfg e st b)) = Some tok \<Longrightarrow> plain_token tok"
  by (auto simp: register_def insert_user_def Let_def plain_generateToken token_of_Err
        token_of_AuthOk dest: token_authLimiter split: option.splits if_splits)

lemma findOne_email_Some: "findOne_email us e = Some u \<Longrightarrow> u \<in> set us"
  by (auto simp: findOne_email_def find_Some_iff split: option.splits list.splits)

lemma token_login:
  "no_admin st \<Longrightarrow> token_of (fst (login cfg e st b)) = Some tok \<Longrightarrow> plain_token tok"
  by (auto simp: login_def no_admin_def plain_generateToken token_of_Err token_of_AuthOk
        dest!: findOne_email_Some dest: token_authLimiter split: option.splits if_splits)

lemma token_of_others:
  "token_of HealthOk = None" "token_of (PaperList ps) = None" "token_of (PaperJson p) = None"
  "token_of OkTrue = None" "token_of (CommentsOk cs) = None" "token_of (AvatarOk a) = None"
  "token_of (NewsList ns) = None" "token_of (NewsJson n) = None"
  "token_of (EventList es) = None" "token_of (EventJson ev) = None"
  by (simp_all add: token_of_def)

lemma token_auth: "authMiddleware cfg e h = Inl r \<Longrightarrow> token_of r = None"
  by (auto simp: authMiddleware_def token_of_def split: header.splits option.splits)

lemma token_errorHandler: "token_of (errorHandler msg) = None"
  by (simp add: errorHandler_def token_of_def)

lemma token_persist: "token_of (fst (upload_and_persist e st f b)) = None"
  by (auto simp: upload_and_persist_def token_of_def Let_def
        split: option.splits upload_outcome.splits)

lemma token_post_paper: "token_of (fst (post_paper cfg e st h f b)) = None"
  by (auto simp: post_paper_def token_persist token_errorHandler token_of_Err
        dest: token_auth token_uploadLimiter split: sum.splits option.splits)

lemma token_delete_paper: "token_of (fst (delete_paper cfg e st h pid)) = None"
  by (auto simp: delete_paper_def token_of_def Let_def dest: token_auth
        split: sum.splits id_param.splits option.splits)

lemma token_append_comment: "token_of (fst (append_comment e st u pid txt)) = None"
  by (auto simp: append_comment_def token_of_def Let_def split: id_param.splits option.splits)

lemma token_post_comment: "token_of (fst (post_comment cfg e st h pid txt)) = None"
  by (auto simp: post_comment_def token_append_comment token_of_Err dest: token_auth
        split: sum.splits)

lemma token_post_avatar: "token_of (fst (post_avatar cfg e st h f)) = None"
  by (auto simp: post_avatar_def token_errorHandler token_of_Err token_of_others Let_def
        dest: token_auth split: sum.splits option.splits upload_outcome.splits)

lemma token_post_news: "token_of (fst (post_news cfg e st h b)) = None"
  by (auto simp: post_news_def token_of_def Let_def dest: token_auth split: sum.splits)

lemma token_delete_news: "token_of (fst (delete_news cfg e st h pid)) = None"
  by (auto simp: delete_news_def token_of_def dest: token_auth
        split: sum.splits id_param.splits)

lemma token_post_event: "token_of (fst (post_event cfg e st h b)) = None"
  by (auto simp: post_event_def token_of_def Let_def dest: token_auth split: sum.splits)

lemma token_delete_event: "token_of (fst (delete_event cfg e st h pid)) = None"
  by (auto simp: delete_event_def token_of_def dest: token_auth
        split: sum.splits id_param.splits)

lemma token_step:
  "no_admin st \<Longrightarrow> token_of (fst (step cfg st r)) = Some tok \<Longrightarrow> plain_token tok"
proof -
  assume ok: "no_admin st" and t: "token_of (fst (step cfg st r)) = Some tok"
  obtain e req where r: "r = (e, req)" by (cases r)
  show ?thesis
  proof (cases req)
    case (PostRegister b)
    with t r show ?thesis by (simp add: token_register)
  next
    case (PostLogin b)
    with t r ok show ?thesis by (simp add: token_login)
  qed (insert t r, simp_all add: token_post_paper token_delete_paper token_post_comment
         token_post_avatar token_post_news token_delete_news token_post_event
         token_delete_event get_papers_def get_news_def get_events_def token_of_others)
qed

lemma issued_plain: "no_admin st \<Longrightarrow> tok \<in> set (issued cfg st rs) \<Longrightarrow> plain_token tok"
proof (induction rs arbitrary: st)
  case Nil
  then show ?case by (simp add: issued_def List.map_filter_simps)
next
  case (Cons r rs)
  from Cons.prems(2) have "token_of (fst (step cfg st r)) = Some tok
      \<or> tok \<in> set (issued cfg (snd (step cfg st r)) rs)"
    by (auto simp: issued_def List.map_filter_simps split: option.splits)
  then show ?case
    using Cons.IH [OF no_admin_step [OF Cons.prems(1)]] token_step [OF Cons.prems(1)]
    by blast
qed

lemma plain_not_admin:
  "plain_token tok \<Longrightarrow> authMiddleware cfg e (Bearer tok) = Inr c \<Longrightarrow> \<not> tok_isAdmin c"
  by (auto simp: authMiddleware_def jwt_verify_def plain_token_def
        split: token.splits option.splits if_splits)

lemma auth_bearer_rejects:
  "authMiddleware cfg e (Bearer tok) = Inl r \<Longrightarrow> r = Err 401 ''Invalid token''"
  by (auto simp: authMiddleware_def split: option.splits)

lemma delete_news_plain:
  "plain_token tok \<Longrightarrow>
     delete_news cfg e st (Bearer tok) pid \<in> {(Err 401 ''Invalid token'', st), (Err 403 ''Forbidden'', st)}"
  by (cases "authMiddleware cfg e (Bearer tok)")
     (auto simp: delete_news_def dest: plain_not_admin auth_bearer_rejects)

lemma delete_event_plain:
  "plain_token tok \<Longrightarrow>
     delete_event cfg e st (Bearer tok) pid \<in> {(Err 401 ''Invalid token'', st), (Err 403 ''Forbidden'', st)}"
  by (cases "authMiddleware cfg e (Bearer tok)")
     (auto simp: delete_event_def dest: plain_not_admin auth_bearer_rejects)

text \<open>
  C10. No request turns a collection without admins into one with an admin, so in every
  state reached from the empty database every user has \<open>isAdmin = False\<close>. Every token
  the server has answered with is refused by \<^verbatim>\<open>DELETE /api/news/:id\<close> and
  \<^verbatim>\<open>DELETE /api/events/:id\<close>, in any state and at any time: 403 while the token is
  valid, 401 once it has expired. The state is returned as it was.
\<close>

theorem no_admin_via_api:
  "(no_admin st \<longrightarrow> no_admin (snd (step cfg st r)))
   \<and> (\<forall>u\<in>set (users (run cfg init rs)). \<not> isAdmin u)
   \<and> (\<forall>tok\<in>set (issued cfg init rs).
        delete_news cfg e st' (Bearer tok) pid
          \<in> {(Err 401 ''Invalid token'', st'), (Err 403 ''Forbidden'', st')}
      \<and> delete_event cfg e st' (Bearer tok) pid
          \<in> {(Err 401 ''Invalid token'', st'), (Err 403 ''Forbidden'', st')})"
proof -
  have "no_admin (run cfg init rs)"
    by (rule no_admin_run) (rule no_admin_init)
  then have a: "\<forall>u\<in>set (users (run cfg init rs)). \<not> isAdmin u"
    by (simp add: no_admin_def)
  have b: "plain_token tok" if "tok \<in> set (issued cfg init rs)" for tok
    using no_admin_init that by (rule issued_plain)
  from a b show ?thesis
    using no_admin_step delete_news_plain delete_event_plain by blast
qed


lemma issued_sample:
  "issued sample_config init [(sample_env, PostRegister sample_register)] =
     [generateToken sample_config 5000 alice]"
  by (simp add: issued_def register_sample token_of_def List.map_filter_simps)

lemma delete_news_alice:
  "delete_news sample_config sample_env sample_state
     (Bearer (generateToken sample_config 5000 alice)) (Oid 0) = (Err 403 ''Forbidden'', sample_state)"
  by (simp add: delete_news_def alice_token_ok)

lemma delete_event_alice:
  "delete_event sample_config sample_env sample_state
     (Bearer (generateToken sample_config 5000 alice)) (Oid 0) = (Err 403 ''Forbidden'', sample_state)"
  by (simp add: delete_event_def alice_token_ok)

theorem no_admin_via_api_witness:
  "no_admin init
   \<and> no_admin (snd (step sample_config init (sample_env, PostRegister sample_register)))
   \<and> users (run sample_config init [(sample_env, PostRegister sample_register)]) = [alice]
   \<and> \<not> isAdmin alice
   \<and> issued sample_config init [(sample_env, PostRegister sample_register)] =
       [generateToken sample_config 5000 alice]
   \<and> delete_news sample_config sample_env sample_state
         (Bearer (generateToken sample_config 5000 alice)) (Oid 0)
       \<in> {(Err 401 ''Invalid token'', sample_state), (Err 403 ''Forbidden'', sample_state)}
   \<and> delete_news sample_config sample_env sample_state
         (Bearer (generateToken sample_config 5000 alice)) (Oid 0)
       = (Err 403 ''Forbidden'', sample_state)
   \<and> delete_event sample_config sample_env sample_state
         (Bearer (generateToken sample_config 5000 alice)) (Oid 0)
       = (Err 403 ''Forbidden'', sample_state)"
proof -
  have u: "users (run sample_config init [(sample_env, PostRegister sample_register)]) = [alice]"
    by (simp add: register_sample one_user_def)
  have m: "generateToken sample_config 5000 alice
             \<in> set (issued sample_config init [(sample_env, PostRegister sample_register)])"
    by (simp add: issued_sample)
  note t = no_admin_via_api [of init sample_config "(sample_env, PostRegister sample_register)"
      "[(sample_env, PostRegister sample_register)]" sample_env sample_state "Oid 0"]
  from t no_admin_init
  have s: "no_admin (snd (step sample_config init (sample_env, PostRegister sample_register)))"
    by blast
  from t u have a: "\<not> isAdmin alice"
    by simp
  from t m have d: "delete_news sample_config sample_env sample_state
         (Bearer (generateToken sample_config 5000 alice)) (Oid 0)
       \<in> {(Err 401 ''Invalid token'', sample_state), (Err 403 ''Forbidden'', sample_state)}"
    by blast
  from no_admin_init s u a issued_sample d delete_news_alice delete_event_alice
  show ?thesis by blast
qed

end
